theory Spec2Isabelle
  imports Main "HOL-Library.AList"
begin

chapter \<open>The authenticated session layer of the chat frontend\<close>

text \<open>
  The theory embeds the session store (stores/authStore.js, with the revision of its
  \<open>login\<close> and \<open>logout\<close> in unnamed/part_000), the axios wrapper with its two
  interceptors and the chat client's \<open>sendMessage\<close> (services/api.js). An action takes the
  world (the store, the browser's storage and location, the wrapper's default header) and
  the answers of the network, and gives back how its promise settles and the world it
  leaves. What the libraries do is written out where an action relies on it: \<open>set\<close> of
  a store wrapped in \<open>persist\<close> writes the partialized state to storage, axios rejects
  a response whose status is not 2xx, \<open>fetch\<close> does not.
\<close>

section \<open>JavaScript values\<close>

text \<open>
  The session store and the HTTP wrapper pass JSON values around without looking at
  their type: a token, a profile or a \<open>detail\<close> field is whatever the server sent.
  The values are modelled as they are at run time. Numbers are restricted to integers;
  an object is the list of its own properties in insertion order.
\<close>

datatype jsval =
    JUndefined
  | JNull
  | JBool bool
  | JNum int
  | JStr string
  | JArr "jsval list"
  | JObj "(string \<times> jsval) list"

text \<open>Truthiness, as \<open>if (x)\<close>, \<open>x || y\<close> and \<open>c ? a : b\<close> test it.\<close>

fun truthy :: "jsval \<Rightarrow> bool" where
  "truthy JUndefined = False"
| "truthy JNull = False"
| "truthy (JBool b) = b"
| "truthy (JNum n) = (n \<noteq> 0)"
| "truthy (JStr s) = (s \<noteq> [])"
| "truthy (JArr xs) = True"
| "truthy (JObj kvs) = True"

text \<open>\<open>a || b\<close>\<close>

definition js_or :: "jsval \<Rightarrow> jsval \<Rightarrow> jsval" where
  "js_or a b = (if truthy a then a else b)"

text \<open>Decimal digits of a natural number (array indices, integer numbers).\<close>

fun digits :: "nat \<Rightarrow> string" where
  "digits n = (if n < 10 then [''0123456789'' ! n]
               else digits (n div 10) @ [''0123456789'' ! (n mod 10)])"

declare digits.simps [simp del]

text \<open>\<open>Array.prototype.join(',')\<close> on strings already converted.\<close>

fun join_commas :: "string list \<Rightarrow> string" where
  "join_commas [] = []"
| "join_commas [s] = s"
| "join_commas (s # t # ss) = s @ '','' @ join_commas (t # ss)"

text \<open>
  \<open>String(x)\<close>, the conversion a template literal \<open>`Bearer ${x}`\<close>, \<open>new Error(x)\<close>
  and \<open>FormData.append\<close> apply. An array is joined with commas, its \<open>null\<close> and
  \<open>undefined\<close> elements giving the empty string.
\<close>

fun to_string :: "jsval \<Rightarrow> string" where
  "to_string JUndefined = ''undefined''"
| "to_string JNull = ''null''"
| "to_string (JBool b) = (if b then ''true'' else ''false'')"
| "to_string (JNum n) = (if n < 0 then ''-'' @ digits (nat (- n)) else digits (nat n))"
| "to_string (JStr s) = s"
| "to_string (JArr xs) =
     join_commas (map (\<lambda>x. if x = JUndefined \<or> x = JNull then [] else to_string x) xs)"
| "to_string (JObj kvs) = ''[object Object]''"

text \<open>Exceptions: every one carries a \<open>message\<close>; an axios error may carry the response.\<close>

record response =
  status :: nat
  data :: jsval

datatype js_error =
    Error string
  | TypeError string
  | SyntaxError string
  | AxiosError string "response option"

fun message :: "js_error \<Rightarrow> string" where
  "message (Error m) = m"
| "message (TypeError m) = m"
| "message (SyntaxError m) = m"
| "message (AxiosError m r) = m"

text \<open>\<open>error.response\<close>: only an axios error that got an answer has one.\<close>

fun error_response :: "js_error \<Rightarrow> response option" where
  "error_response (AxiosError m r) = r"
| "error_response e = None"

text \<open>
  Own property lookup. Where a list of properties names one twice the later entry counts,
  as in an object literal and in JSON text. None of the names the code reads (\<open>detail\<close>,
  \<open>access_token\<close>, \<open>user\<close>, \<open>state\<close>, \<open>token\<close>) is inherited from a prototype, so a
  value that is not an object gives \<open>undefined\<close>.
\<close>

definition lookup :: "(string \<times> jsval) list \<Rightarrow> string \<Rightarrow> jsval" where
  "lookup kvs p = (case map_of (rev kvs) p of None \<Rightarrow> JUndefined | Some v \<Rightarrow> v)"

text \<open>\<open>x?.p\<close>\<close>

fun opt_prop :: "jsval \<Rightarrow> string \<Rightarrow> jsval" where
  "opt_prop (JObj kvs) p = lookup kvs p"
| "opt_prop v p = JUndefined"

text \<open>\<open>x.p\<close>: a TypeError on \<open>null\<close> and \<open>undefined\<close> (the message is V8's).\<close>

definition get_prop :: "jsval \<Rightarrow> string \<Rightarrow> js_error + jsval" where
  "get_prop x p =
     (if x = JUndefined then
        Inl (TypeError (''Cannot read properties of undefined (reading '' @ [CHR 0x27] @ p
          @ [CHR 0x27] @ '')''))
      else if x = JNull then
        Inl (TypeError (''Cannot read properties of null (reading '' @ [CHR 0x27] @ p
          @ [CHR 0x27] @ '')''))
      else Inr (opt_prop x p))"

text \<open>
  Own enumerable properties, which \<open>{...x}\<close> copies: those of an object, the indexed
  elements of an array, the indexed characters of a string, none otherwise.
\<close>

fun own_props :: "jsval \<Rightarrow> (string \<times> jsval) list" where
  "own_props (JObj kvs) = kvs"
| "own_props (JArr xs) = zip (map digits [0..<length xs]) xs"
| "own_props (JStr s) = zip (map digits [0..<length s]) (map (\<lambda>c. JStr [c]) s)"
| "own_props v = []"

text \<open>\<open>{...a, ...b}\<close>: the properties are assigned in order, a later one replacing an
  earlier one of the same name in place.\<close>

definition assign :: "(string \<times> jsval) list \<Rightarrow> (string \<times> jsval) list \<Rightarrow> (string \<times> jsval) list" where
  "assign target props = fold (\<lambda>(k, v). AList.update k v) props target"

definition spread2 :: "jsval \<Rightarrow> jsval \<Rightarrow> jsval" where
  "spread2 a b = JObj (assign (assign [] (own_props a)) (own_props b))"

text \<open>
  \<open>JSON.parse(JSON.stringify(x))\<close>: a property whose value is \<open>undefined\<close> is left
  out, an \<open>undefined\<close> array element becomes \<open>null\<close>.
\<close>

fun jsonify :: "jsval \<Rightarrow> jsval"
  and jsonify_elems :: "jsval list \<Rightarrow> jsval list"
  and jsonify_props :: "(string \<times> jsval) list \<Rightarrow> (string \<times> jsval) list" where
  "jsonify (JArr xs) = JArr (jsonify_elems xs)"
| "jsonify (JObj kvs) = JObj (jsonify_props kvs)"
| "jsonify JUndefined = JUndefined"
| "jsonify JNull = JNull"
| "jsonify (JBool b) = JBool b"
| "jsonify (JNum n) = JNum n"
| "jsonify (JStr s) = JStr s"
| "jsonify_elems [] = []"
| "jsonify_elems (x # xs) = (if x = JUndefined then JNull else jsonify x) # jsonify_elems xs"
| "jsonify_props [] = []"
| "jsonify_props ((k, v) # kvs) =
     (if v = JUndefined then jsonify_props kvs else (k, jsonify v) # jsonify_props kvs)"


text \<open>
  \<open>const { p } = x\<close>: a TypeError on \<open>null\<close> and \<open>undefined\<close> (V8's message, which
  names the expression destructured).
\<close>

definition destructure :: "string \<Rightarrow> jsval \<Rightarrow> string \<Rightarrow> js_error + jsval" where
  "destructure expr x p =
     (if x = JUndefined \<or> x = JNull then
        Inl (TypeError (''Cannot destructure property '' @ [CHR 0x27] @ p @ [CHR 0x27]
          @ '' of '' @ [CHR 0x27] @ expr @ [CHR 0x27] @ '' as it is '' @ to_string x @ ''.''))
      else Inr (opt_prop x p))"

text \<open>The template literal \<open>`Bearer ${x}`\<close>.\<close>

definition bearer :: "jsval \<Rightarrow> string" where
  "bearer x = ''Bearer '' @ to_string x"

section \<open>The session store (stores/authStore.js)\<close>

text \<open>
  The state of the store, with the initial values of lines 9 to 13. \<open>user\<close>, \<open>token\<close>
  and \<open>error\<close> hold whatever value an action stores there. Every action assigns the
  two flags the literals \<open>true\<close> and \<open>false\<close>; rehydration can copy any stored value
  into them, of which the model keeps the truthiness, the one thing the code tests
  (\<open>isAuthenticated ? children : ...\<close> in the protected route).
\<close>

record session =
  user :: jsval
  token :: jsval
  isAuthenticated :: bool
  isLoading :: bool
  error :: jsval

definition initial_state :: session where
  "initial_state =
     \<lparr>user = JNull, token = JNull, isAuthenticated = False, isLoading = False, error = JNull\<rparr>"

text \<open>
  What \<open>localStorage\<close> holds under a key is a string; it is modelled by what
  \<open>JSON.parse\<close> makes of it: the parsed value, or a string that does not parse (the
  empty string among them).
\<close>

datatype stored = NotJson string | Json jsval

text \<open>The effects on the browser, in the order they happen.\<close>

datatype event =
    Dispatched string string
  | ItemSet string
  | ItemRemoved string
  | Navigated string

text \<open>
  Everything the store and the wrapper read and write: the store's state, the browser's
  \<open>localStorage\<close>, \<open>api.defaults.headers.common['Authorization']\<close>,
  \<open>window.location.href\<close>, and the log of effects.
\<close>

record world =
  store :: session
  localStorage :: "string \<rightharpoonup> stored"
  default_authorization :: "string option"
  href :: string
  log :: "event list"

text \<open>\<open>partialize: (state) => ({ token: state.token })\<close> (line 126)\<close>

definition partialize :: "session \<Rightarrow> jsval" where
  "partialize state = JObj [(''token'', token state)]"

text \<open>
  The entry the \<open>persist\<close> middleware writes under \<open>name\<close>: the partialized state
  and the version (0 when the options give none), as JSON text.
\<close>

definition persisted :: "session \<Rightarrow> stored" where
  "persisted state = Json (jsonify (JObj [(''state'', partialize state), (''version'', JNum 0)]))"

text \<open>
  \<open>set(partial)\<close> of a store wrapped in \<open>persist\<close> (lines 5, 6 and 124 to 127): the
  partial state is merged into the state, then the entry \<open>auth-storage\<close> is written
  again. The partial state is given as the record update it performs.
\<close>

definition set_state :: "(session \<Rightarrow> session) \<Rightarrow> world \<Rightarrow> world" where
  "set_state partial w =
     w\<lparr>store := partial (store w),
       localStorage := (localStorage w)(''auth-storage'' \<mapsto> persisted (partial (store w))),
       log := log w @ [ItemSet ''auth-storage'']\<rparr>"

text \<open>
  Rehydration: what the \<open>persist\<close> middleware does when the store is created (lines 5
  and 6). It reads the entry \<open>name\<close>; when the entry parses to a truthy value whose
  \<open>version\<close> is not a number other than the store's (0), it merges the entry's \<open>state\<close>
  over the initial state with the default \<open>merge\<close>, which is
  \<open>{...currentState, ...persistedState}\<close> since the options of lines 124 to 127 give
  none; otherwise the initial state stays. Stored properties that are not fields of the
  state are left out.
\<close>

fun is_number :: "jsval \<Rightarrow> bool" where
  "is_number (JNum n) = True"
| "is_number v = False"

definition stored_prop :: "jsval \<Rightarrow> string \<Rightarrow> jsval option" where
  "stored_prop persistedState p = map_of (rev (own_props persistedState)) p"

definition merge_persisted :: "jsval \<Rightarrow> session \<Rightarrow> session" where
  "merge_persisted persistedState current =
     \<lparr>user = (case stored_prop persistedState ''user'' of
               None \<Rightarrow> user current | Some v \<Rightarrow> v),
      token = (case stored_prop persistedState ''token'' of
                 None \<Rightarrow> token current | Some v \<Rightarrow> v),
      isAuthenticated = (case stored_prop persistedState ''isAuthenticated'' of
                           None \<Rightarrow> isAuthenticated current | Some v \<Rightarrow> truthy v),
      isLoading = (case stored_prop persistedState ''isLoading'' of
                     None \<Rightarrow> isLoading current | Some v \<Rightarrow> truthy v),
      error = (case stored_prop persistedState ''error'' of
                 None \<Rightarrow> error current | Some v \<Rightarrow> v)\<rparr>"

definition rehydrate :: "(string \<rightharpoonup> stored) \<Rightarrow> session" where
  "rehydrate storage =
     (case storage ''auth-storage'' of
        None \<Rightarrow> initial_state
      | Some (NotJson text) \<Rightarrow> initial_state
      | Some (Json entry) \<Rightarrow>
          if \<not> truthy entry then initial_state
          else if is_number (opt_prop entry ''version'') \<and> opt_prop entry ''version'' \<noteq> JNum 0
            then initial_state
          else merge_persisted (opt_prop entry ''state'') initial_state)"

section \<open>The HTTP wrapper (services/api.js)\<close>

datatype payload = NoData | JsonData jsval | FormData "(string \<times> string) list"

record config =
  url :: string
  http_method :: string
  headers :: "string \<rightharpoonup> string"
  req_data :: payload

text \<open>
  The network and the backend: what comes back for a request that leaves the wrapper.
  A failure of the transport (the timeout of line 6 among them) carries its message.
\<close>

datatype reply = NetworkFailure string | HttpReply response

type_synonym server = "config \<Rightarrow> reply"

text \<open>The request interceptor (lines 13 to 28). The \<open>catch\<close> only writes to the console.\<close>

definition request_interceptor :: "(string \<rightharpoonup> stored) \<Rightarrow> config \<Rightarrow> config" where
  "request_interceptor storage config =
     (case storage ''auth-storage'' of
        None \<Rightarrow> config
      | Some (NotJson text) \<Rightarrow> config
      | Some (Json parsed) \<Rightarrow>
          (case get_prop parsed ''state'' of
             Inl e \<Rightarrow> config
           | Inr state \<Rightarrow>
               if truthy (opt_prop state ''token'') then
                 config\<lparr>headers := (headers config)(''Authorization'' \<mapsto>
                   bearer (opt_prop state ''token''))\<rparr>
               else config))"

text \<open>The response interceptor's error handler (lines 39 to 47).\<close>

definition response_rejected :: "js_error \<Rightarrow> world \<Rightarrow> (js_error + response) \<times> world" where
  "response_rejected err w =
     (Inl err,
      if map_option status (error_response err) = Some 401 then
        w\<lparr>localStorage := (localStorage w)(''auth-storage'' := None),
          href := ''/login'',
          log := log w @ [ItemRemoved ''auth-storage'', Navigated ''/login'']\<rparr>
      else w)"

text \<open>
  One request through the instance of lines 4 to 10: the instance's headers (line 8 and
  the default \<open>Authorization\<close> the store may have installed) under those of the call,
  the request interceptor, the network, axios's status check (2xx resolves, anything else
  rejects with the response attached), the response interceptors.
\<close>

definition default_headers :: "world \<Rightarrow> string \<rightharpoonup> string" where
  "default_headers w =
     (case default_authorization w of
        None \<Rightarrow> [''Content-Type'' \<mapsto> ''application/json'']
      | Some a \<Rightarrow> [''Content-Type'' \<mapsto> ''application/json'', ''Authorization'' \<mapsto> a])"

definition outgoing :: "world \<Rightarrow> config \<Rightarrow> config" where
  "outgoing w config =
     request_interceptor (localStorage w) (config\<lparr>headers := default_headers w ++ headers config\<rparr>)"

text \<open>axios's default \<open>validateStatus\<close> and its \<open>settle\<close>: how a reply settles the promise.\<close>

definition validateStatus :: "nat \<Rightarrow> bool" where
  "validateStatus st = (200 \<le> st \<and> st < 300)"

fun settle :: "reply \<Rightarrow> js_error + response" where
  "settle (NetworkFailure m) = Inl (AxiosError m None)"
| "settle (HttpReply r) =
     (if validateStatus (status r) then Inr r
      else Inl (AxiosError (''Request failed with status code '' @ digits (status r)) (Some r)))"

definition api_request :: "server \<Rightarrow> config \<Rightarrow> world \<Rightarrow> (js_error + response) \<times> world" where
  "api_request srv config w =
     (let sent = outgoing w config;
          w1 = w\<lparr>log := log w @ [Dispatched (http_method sent) (url sent)]\<rparr>
      in case settle (srv sent) of
           Inr r \<Rightarrow> (Inr r, w1)
         | Inl err \<Rightarrow> response_rejected err w1)"

definition api_get :: "server \<Rightarrow> string \<Rightarrow> world \<Rightarrow> (js_error + response) \<times> world" where
  "api_get srv path = api_request srv \<lparr>url = path, http_method = ''get'', headers = Map.empty, req_data = NoData\<rparr>"

definition api_post :: "server \<Rightarrow> string \<Rightarrow> payload \<Rightarrow> world \<Rightarrow> (js_error + response) \<times> world" where
  "api_post srv path d = api_request srv \<lparr>url = path, http_method = ''post'', headers = Map.empty, req_data = d\<rparr>"

definition api_put :: "server \<Rightarrow> string \<Rightarrow> payload \<Rightarrow> world \<Rightarrow> (js_error + response) \<times> world" where
  "api_put srv path d = api_request srv \<lparr>url = path, http_method = ''put'', headers = Map.empty, req_data = d\<rparr>"

section \<open>The actions of the store (stores/authStore.js)\<close>

text \<open>
  An action is an \<open>async\<close> function: it takes the world, consults the server, and
  gives back how its promise settles (\<open>Inl\<close> a rejection, \<open>Inr\<close> the value it resolves
  to) with the world it leaves.
\<close>

type_synonym 'a action = "world \<Rightarrow> (js_error + 'a) \<times> world"

text \<open>\<open>error.response?.data?.detail || dflt\<close>, the message every \<open>catch\<close> computes.\<close>

definition error_detail :: "js_error \<Rightarrow> string \<Rightarrow> jsval" where
  "error_detail err dflt =
     js_or (case error_response err of None \<Rightarrow> JUndefined | Some r \<Rightarrow> opt_prop (data r) ''detail'')
           (JStr dflt)"

definition failure :: "jsval \<Rightarrow> jsval" where
  "failure errorMessage = JObj [(''success'', JBool False), (''error'', errorMessage)]"

definition success :: jsval where
  "success = JObj [(''success'', JBool True)]"

text \<open>\<open>set({ isLoading: true, error: null })\<close>, the first statement of \<open>login\<close> (line 17).\<close>

definition loading :: "world \<Rightarrow> world" where
  "loading w = set_state (\<lambda>s. s\<lparr>isLoading := True, error := JNull\<rparr>) w"

text \<open>\<open>login\<close> (lines 16 to 42). The \<open>catch\<close> is \<open>login_catch\<close>.\<close>

definition login_catch :: "js_error \<Rightarrow> jsval action" where
  "login_catch err w =
     (let errorMessage = error_detail err ''Login failed''
      in (Inr (failure errorMessage),
          set_state (\<lambda>s. s\<lparr>isLoading := False, error := errorMessage\<rparr>) w))"

definition login :: "server \<Rightarrow> jsval \<Rightarrow> jsval action" where
  "login srv credentials w0 =
     (let w1 = loading w0
      in case api_post srv ''/auth/login'' (JsonData credentials) w1 of
           (Inl err, w2) \<Rightarrow> login_catch err w2
         | (Inr resp, w2) \<Rightarrow>
             (case destructure ''response.data'' (data resp) ''access_token'' of
                Inl err \<Rightarrow> login_catch err w2
              | Inr access_token \<Rightarrow>
                  let usr = opt_prop (data resp) ''user'';
                      w3 = w2\<lparr>default_authorization := Some (bearer access_token)\<rparr>
                  in (Inr success,
                      set_state (\<lambda>s. s\<lparr>user := usr, token := access_token, isAuthenticated := True,
                                        isLoading := False, error := JNull\<rparr>) w3)))"

text \<open>\<open>logout\<close> (lines 63 to 74)\<close>

definition logout :: "world \<Rightarrow> world" where
  "logout w =
     set_state (\<lambda>s. s\<lparr>user := JNull, token := JNull, isAuthenticated := False,
                       isLoading := False, error := JNull\<rparr>)
       (w\<lparr>default_authorization := None\<rparr>)"

text \<open>\<open>updateProfile\<close> (lines 76 to 88)\<close>

definition updateProfile :: "server \<Rightarrow> jsval \<Rightarrow> jsval action" where
  "updateProfile srv profileData w0 =
     (case api_put srv ''/users/profile'' (JsonData profileData) w0 of
        (Inr resp, w1) \<Rightarrow>
          (Inr success, set_state (\<lambda>s. s\<lparr>user := spread2 (user (store w1)) (data resp)\<rparr>) w1)
      | (Inl err, w1) \<Rightarrow>
          (let errorMessage = error_detail err ''Profile update failed''
           in (Inr (failure errorMessage), set_state (\<lambda>s. s\<lparr>error := errorMessage\<rparr>) w1)))"

text \<open>\<open>changePassword\<close> (lines 90 to 99)\<close>

definition changePassword :: "server \<Rightarrow> jsval \<Rightarrow> jsval action" where
  "changePassword srv passwordData w0 =
     (case api_put srv ''/users/password'' (JsonData passwordData) w0 of
        (Inr resp, w1) \<Rightarrow> (Inr success, w1)
      | (Inl err, w1) \<Rightarrow>
          (let errorMessage = error_detail err ''Password change failed''
           in (Inr (failure errorMessage), set_state (\<lambda>s. s\<lparr>error := errorMessage\<rparr>) w1)))"

text \<open>\<open>initializeAuth\<close> (lines 104 to 122)\<close>

definition initializeAuth :: "server \<Rightarrow> jsval action" where
  "initializeAuth srv w0 =
     (if truthy (token (store w0)) then
        (let w1 = w0\<lparr>default_authorization := Some (bearer (token (store w0)))\<rparr>
         in case api_get srv ''/users/profile'' w1 of
              (Inr resp, w2) \<Rightarrow>
                (Inr JUndefined,
                 set_state (\<lambda>s. s\<lparr>user := data resp, isAuthenticated := True\<rparr>) w2)
            | (Inl err, w2) \<Rightarrow> (Inr JUndefined, logout w2))
      else (Inr JUndefined, w0))"

section \<open>\<open>login\<close> as revised to use \<open>fetch\<close> (unnamed/part_000, lines 3 to 47)\<close>

text \<open>
  The revision calls the browser's \<open>fetch\<close>, not the axios instance: no interceptor
  runs. \<open>fetch\<close> rejects when the transport fails and resolves with a response for
  every status; \<open>response.json()\<close> rejects when the body is not JSON.
\<close>

record fetch_request =
  f_url :: string
  f_method :: string
  f_headers :: "(string \<times> string) list"
  f_body :: "jsval option"

record fetch_response =
  f_status :: nat
  f_json :: "js_error + jsval"

type_synonym network = "fetch_request \<Rightarrow> js_error + fetch_response"

text \<open>\<open>response.ok\<close>\<close>

definition ok :: "fetch_response \<Rightarrow> bool" where
  "ok r = (200 \<le> f_status r \<and> f_status r \<le> 299)"

definition login_request :: "jsval \<Rightarrow> jsval \<Rightarrow> fetch_request" where
  "login_request username password =
     \<lparr>f_url = ''/auth/login'', f_method = ''POST'',
      f_headers = [(''Content-Type'', ''application/json'')],
      f_body = Some (jsonify (JObj [(''username'', username), (''password'', password)]))\<rparr>"

definition profile_request :: "jsval \<Rightarrow> fetch_request" where
  "profile_request access_token =
     \<lparr>f_url = ''/users/profile'', f_method = ''GET'',
      f_headers = [(''Authorization'', bearer access_token)],
      f_body = None\<rparr>"

text \<open>Sequencing inside a \<open>try\<close> block: the first rejection or \<open>throw\<close> leaves it.\<close>

definition and_then :: "js_error + 'a \<Rightarrow> ('a \<Rightarrow> js_error + 'b) \<Rightarrow> js_error + 'b" where
  "and_then r f = (case r of Inl e \<Rightarrow> Inl e | Inr x \<Rightarrow> f x)"

text \<open>
  The \<open>try\<close> block up to the final \<open>set\<close> (lines 6 to 29): it gives the \<open>user\<close> and
  the \<open>access_token\<close> that the \<open>set\<close> of lines 31 to 37 stores.
\<close>

definition login_fetch_try :: "network \<Rightarrow> jsval \<Rightarrow> jsval \<Rightarrow> js_error + (jsval \<times> jsval)" where
  "login_fetch_try net username password =
     and_then (net (login_request username password)) (\<lambda>resp.
       if \<not> ok resp then
         and_then (f_json resp) (\<lambda>errorData.
         and_then (get_prop errorData ''detail'') (\<lambda>detail.
           Inl (Error (to_string (js_or detail (JStr ''Login failed''))))))
       else
         and_then (f_json resp) (\<lambda>d.
         and_then (destructure ''data'' d ''access_token'') (\<lambda>access_token.
         and_then (net (profile_request access_token)) (\<lambda>profileResponse.
         and_then (if ok profileResponse then f_json profileResponse
                   else Inr (JObj [(''username'', username)])) (\<lambda>usr.
           Inr (usr, access_token))))))"

text \<open>\<open>error.message || dflt\<close>\<close>

definition message_or :: "js_error \<Rightarrow> string \<Rightarrow> string" where
  "message_or err dflt = (if message err \<noteq> [] then message err else dflt)"

text \<open>The \<open>catch\<close> (lines 39 to 46): the message is stored, and thrown in a new \<open>Error\<close>.\<close>

definition login_fetch_catch :: "js_error \<Rightarrow> jsval action" where
  "login_fetch_catch err w =
     (let errorMessage = message_or err ''Login failed''
      in (Inl (Error errorMessage),
          set_state (\<lambda>s. s\<lparr>isLoading := False, error := JStr errorMessage\<rparr>) w))"

definition login_fetch :: "network \<Rightarrow> jsval \<Rightarrow> jsval \<Rightarrow> jsval action" where
  "login_fetch net username password w0 =
     (let w1 = loading w0
      in case login_fetch_try net username password of
           Inr (usr, access_token) \<Rightarrow>
             (Inr JUndefined,
              set_state (\<lambda>s. s\<lparr>user := usr, token := access_token, isAuthenticated := True,
                                isLoading := False, error := JNull\<rparr>) w1)
         | Inl err \<Rightarrow> login_fetch_catch err w1)"

text \<open>
  \<open>logout\<close> as the same revision has it (unnamed/part_000, lines 79 to 87): the request
  default is no longer deleted.
\<close>

definition logout_fetch :: "world \<Rightarrow> world" where
  "logout_fetch w =
     set_state (\<lambda>s. s\<lparr>user := JNull, token := JNull, isAuthenticated := False,
                       isLoading := False, error := JNull\<rparr>) w"

section \<open>The chat client (services/api.js, lines 52 to 59)\<close>

text \<open>
  The form \<open>sendMessage\<close> builds; \<open>conversationId = null\<close> is the default of a missing
  (\<open>undefined\<close>) argument, and \<open>FormData.append\<close> stores the value as a string.
\<close>

definition sendMessage_form :: "jsval \<Rightarrow> jsval \<Rightarrow> (string \<times> string) list" where
  "sendMessage_form msg conversationId =
     (let cid = (if conversationId = JUndefined then JNull else conversationId);
          formData = [(''message'', to_string msg)]
      in if truthy cid then formData @ [(''conversation_id'', to_string cid)] else formData)"

definition sendMessage :: "server \<Rightarrow> jsval \<Rightarrow> jsval \<Rightarrow> response action" where
  "sendMessage srv msg conversationId =
     api_post srv ''/chat/send'' (FormData (sendMessage_form msg conversationId))"

section \<open>Sample worlds, servers and networks\<close>

text \<open>A page just loaded, nobody logged in.\<close>

definition fresh_world :: world where
  "fresh_world =
     \<lparr>store = initial_state, localStorage = Map.empty, default_authorization = None,
      href = ''/login'', log = []\<rparr>"

definition alice :: jsval where
  "alice = JObj [(''username'', JStr ''alice''), (''email'', JStr ''alice@x.com'')]"

definition alice_session :: session where
  "alice_session =
     \<lparr>user = alice, token = JStr ''t1'', isAuthenticated = True, isLoading = False, error = JNull\<rparr>"

text \<open>The world a successful \<open>login\<close> of stores/authStore.js leaves.\<close>

definition alice_world :: world where
  "alice_world =
     \<lparr>store = alice_session, localStorage = [''auth-storage'' \<mapsto> persisted alice_session],
      default_authorization = Some ''Bearer t1'', href = ''/chat'', log = []\<rparr>"

text \<open>The same, with the error an earlier failed password change has left.\<close>

definition stale_error_world :: world where
  "stale_error_world =
     alice_world\<lparr>store := alice_session\<lparr>error := JStr ''wrong current password''\<rparr>\<rparr>"

text \<open>A page loaded with a token in storage: the store holds the token and nothing else.\<close>

definition rehydrated_world :: world where
  "rehydrated_world =
     \<lparr>store = initial_state\<lparr>token := JStr ''t1''\<rparr>,
      localStorage = [''auth-storage'' \<mapsto> persisted (initial_state\<lparr>token := JStr ''t1''\<rparr>)],
      default_authorization = None, href = ''/'', log = []\<rparr>"

definition passwords :: jsval where
  "passwords = JObj [(''currentPassword'', JStr ''a''), (''newPassword'', JStr ''b'')]"

definition alice_credentials :: jsval where
  "alice_credentials = JObj [(''username'', JStr ''alice''), (''password'', JStr ''pw'')]"

text \<open>Servers for the axios wrapper: each answers every request alike.\<close>

definition token_server :: server where
  "token_server cfg =
     HttpReply \<lparr>status = 200,
                data = JObj [(''access_token'', JStr ''t1''), (''token_type'', JStr ''bearer'')]\<rparr>"

text \<open>A server that issues a token and then refuses it: 200 to the login, 401 to the rest.\<close>

definition expired :: server where
  "expired cfg =
     (if url cfg = ''/auth/login'' then
        HttpReply \<lparr>status = 200,
                   data = JObj [(''access_token'', JStr ''t1''), (''user'', alice)]\<rparr>
      else HttpReply \<lparr>status = 401,
                      data = JObj [(''detail'', JStr ''Could not validate credentials'')]\<rparr>)"

text \<open>A server whose 2xx reply to the login carries no token.\<close>

definition token_less :: server where
  "token_less cfg = HttpReply \<lparr>status = 200, data = JObj [(''message'', JStr ''ok'')]\<rparr>"

text \<open>The world after a login and a 401 to a later request; the world after a login that
  got no token.\<close>

definition after_expiry :: world where
  "after_expiry =
     snd (api_get expired ''/plugins'' (snd (login expired alice_credentials fresh_world)))"

definition after_token_less_login :: world where
  "after_token_less_login = snd (login token_less alice_credentials fresh_world)"

definition health_check :: config where
  "health_check = \<lparr>url = ''/health'', http_method = ''get'', headers = Map.empty, req_data = NoData\<rparr>"

text \<open>A storage entry this store did not write: it carries a user and the flag.\<close>

definition forged_storage :: "string \<rightharpoonup> stored" where
  "forged_storage =
     [''auth-storage'' \<mapsto>
        Json (JObj [(''state'', JObj [(''token'', JStr ''t1''),
                                      (''user'', JObj [(''username'', JStr ''mallory'')]),
                                      (''isAuthenticated'', JBool True)]),
                    (''version'', JNum 0)])]"

definition unauthorized :: server where
  "unauthorized cfg =
     HttpReply \<lparr>status = 401, data = JObj [(''detail'', JStr ''Could not validate credentials'')]\<rparr>"

definition profile_server :: server where
  "profile_server cfg = HttpReply \<lparr>status = 200, data = alice\<rparr>"

definition email_updated :: server where
  "email_updated cfg = HttpReply \<lparr>status = 200, data = JObj [(''email'', JStr ''new@x.com'')]\<rparr>"

definition wrong_password :: server where
  "wrong_password cfg =
     HttpReply \<lparr>status = 400, data = JObj [(''detail'', JStr ''wrong current password'')]\<rparr>"

text \<open>For \<open>fetch\<close>: a backend that answers both requests; one whose profile endpoint answers
  503 with a page that is not JSON; one whose profile endpoint cannot be reached; no network
  at all; a gateway that answers 502 with a page that is not JSON; a backend that answers
  500 with the body \<open>null\<close>; one that answers 422 with a list as \<open>detail\<close>; one that
  refuses the credentials.\<close>

definition token_reply :: fetch_response where
  "token_reply =
     \<lparr>f_status = 200,
      f_json = Inr (JObj [(''access_token'', JStr ''t1''), (''token_type'', JStr ''bearer'')])\<rparr>"

definition backend :: network where
  "backend req =
     (if f_url req = ''/auth/login'' then Inr token_reply
      else Inr \<lparr>f_status = 200, f_json = Inr alice\<rparr>)"

definition profile_unavailable :: network where
  "profile_unavailable req =
     (if f_url req = ''/auth/login'' then Inr token_reply
      else Inr \<lparr>f_status = 503,
                f_json = Inl (SyntaxError ''Unexpected token < in JSON at position 0'')\<rparr>)"

definition profile_unreachable :: network where
  "profile_unreachable req =
     (if f_url req = ''/auth/login'' then Inr token_reply
      else Inl (TypeError ''Failed to fetch''))"

definition offline :: network where
  "offline req = Inl (TypeError ''Failed to fetch'')"

definition bad_gateway :: network where
  "bad_gateway req =
     Inr \<lparr>f_status = 502,
          f_json = Inl (SyntaxError ''Unexpected token < in JSON at position 0'')\<rparr>"

definition null_body :: network where
  "null_body req = Inr \<lparr>f_status = 500, f_json = Inr JNull\<rparr>"

definition validation_error :: network where
  "validation_error req =
     Inr \<lparr>f_status = 422,
          f_json = Inr (JObj [(''detail'', JArr [JObj [(''msg'', JStr ''field required'')]])])\<rparr>"

definition wrong_credentials :: network where
  "wrong_credentials req =
     Inr \<lparr>f_status = 401,
          f_json = Inr (JObj [(''detail'', JStr ''Incorrect username or password'')])\<rparr>"

section \<open>Helper facts\<close>

lemma session_all_updates:
  "s\<lparr>user := u, token := t, isAuthenticated := a, isLoading := l, error := e\<rparr>
   = \<lparr>user = u, token = t, isAuthenticated = a, isLoading = l, error = e\<rparr>"
  by (cases s) simp

lemma digits_400: "digits 400 = ''400''"
  by (simp add: digits.simps)

lemma digits_401: "digits 401 = ''401''"
  by (simp add: digits.simps)

lemma persisted_eq:
  "persisted s =
     Json (JObj [(''state'', JObj (if token s = JUndefined then []
                                   else [(''token'', jsonify (token s))])),
                 (''version'', JNum 0)])"
  by (simp add: persisted_def partialize_def)

lemma falsy_jsonify: "\<not> truthy t \<Longrightarrow> \<not> truthy (jsonify t)"
  by (cases t) simp_all

lemma set_state_frame:
  "store (set_state f w) = f (store w)"
  "default_authorization (set_state f w) = default_authorization w"
  "href (set_state f w) = href w"
  "localStorage (set_state f w) = (localStorage w)(''auth-storage'' \<mapsto> persisted (f (store w)))"
  by (simp_all add: set_state_def)

lemma logout_frame:
  "store (logout w) = initial_state"
  "default_authorization (logout w) = None"
  "localStorage (logout w) = (localStorage w)(''auth-storage'' \<mapsto> persisted initial_state)"
  "href (logout w) = href w"
  by (simp_all add: logout_def set_state_def initial_state_def session_all_updates)

subsection \<open>The wrapper leaves the store alone\<close>

lemma request_interceptor_frame:
  "url (request_interceptor st cfg) = url cfg"
  "http_method (request_interceptor st cfg) = http_method cfg"
  "req_data (request_interceptor st cfg) = req_data cfg"
  by (simp_all add: request_interceptor_def split: option.split stored.split sum.split)

lemma outgoing_frame:
  "url (outgoing w cfg) = url cfg"
  "http_method (outgoing w cfg) = http_method cfg"
  "req_data (outgoing w cfg) = req_data cfg"
  by (simp_all add: outgoing_def request_interceptor_frame)

lemma response_rejected_frame:
  "fst (response_rejected err w) = Inl err"
  "store (snd (response_rejected err w)) = store w"
  "default_authorization (snd (response_rejected err w)) = default_authorization w"
  by (simp_all add: response_rejected_def)

lemma response_rejected_storage:
  "(localStorage (snd (response_rejected err w)))(''auth-storage'' \<mapsto> v)
   = (localStorage w)(''auth-storage'' \<mapsto> v)"
  by (simp add: response_rejected_def)

lemma api_request_frame:
  "store (snd (api_request srv cfg w)) = store w"
  "default_authorization (snd (api_request srv cfg w)) = default_authorization w"
  by (simp_all add: api_request_def Let_def response_rejected_frame split: sum.split)

lemma api_request_cases:
  "fst (api_request srv cfg w) = settle (srv (outgoing w cfg))"
  by (simp add: api_request_def Let_def response_rejected_frame split: sum.split)

lemma api_request_storage:
  "(localStorage (snd (api_request srv cfg w)))(''auth-storage'' \<mapsto> v)
   = (localStorage w)(''auth-storage'' \<mapsto> v)"
  by (simp add: api_request_def Let_def response_rejected_storage split: sum.split)

lemma api_put_frame:
  "store (snd (api_put srv path d w)) = store w"
  "default_authorization (snd (api_put srv path d w)) = default_authorization w"
  by (simp_all add: api_put_def api_request_frame)

lemma api_get_frame:
  "store (snd (api_get srv path w)) = store w"
  "default_authorization (snd (api_get srv path w)) = default_authorization w"
  by (simp_all add: api_get_def api_request_frame)

section \<open>Logout\<close>

text \<open>
  Claim C6. \<open>logout()\<close> is idempotent: from any state of the world it leaves the store in
  the initial empty state (\<open>user = null\<close>, \<open>token = null\<close>, \<open>isAuthenticated = false\<close>,
  \<open>isLoading = false\<close>, \<open>error = null\<close>), removes the request-default authorization, and
  persists the empty state; a second call changes nothing of this: the world after two
  calls is the world after one, the log of storage writes apart.
\<close>

theorem logout_idempotent:
  "store (logout w) = initial_state
   \<and> default_authorization (logout w) = None
   \<and> localStorage (logout w) ''auth-storage'' = Some (persisted initial_state)
   \<and> logout (logout w) = (logout w)\<lparr>log := log (logout (logout w))\<rparr>"
  by (simp add: logout_def set_state_def initial_state_def session_all_updates)

text \<open>
  The revision of unnamed/part_000 resets the store in the same way and is idempotent as
  well, but leaves the request default in place.
\<close>

lemma logout_fetch_idempotent:
  "store (logout_fetch w) = initial_state
   \<and> default_authorization (logout_fetch w) = default_authorization w
   \<and> logout_fetch (logout_fetch w) = (logout_fetch w)\<lparr>log := log (logout_fetch (logout_fetch w))\<rparr>"
  by (simp add: logout_fetch_def set_state_def initial_state_def session_all_updates)

section \<open>The chat client\<close>

text \<open>
  Claim C10. The form \<open>chatAPI.sendMessage(message, conversationId)\<close> posts to
  \<open>/chat/send\<close> has a \<open>conversation_id\<close> field if and only if \<open>conversationId\<close> is
  truthy; with \<open>null\<close>, or with the argument left out so that the default \<open>null\<close>
  applies, the form holds the \<open>message\<close> field alone.
\<close>

theorem sendMessage_conversation_id:
  "(''conversation_id'' \<in> fst ` set (sendMessage_form msg conversationId)) = truthy conversationId
   \<and> sendMessage_form msg JNull = [(''message'', to_string msg)]
   \<and> sendMessage_form msg JUndefined = [(''message'', to_string msg)]
   \<and> sendMessage srv msg conversationId w
       = api_post srv ''/chat/send'' (FormData (sendMessage_form msg conversationId)) w"
  by (auto simp add: sendMessage_form_def sendMessage_def Let_def)

section \<open>What is persisted\<close>

lemma rehydrate_persisted:
  "storage ''auth-storage'' = Some (persisted s) \<Longrightarrow>
   rehydrate storage
     = initial_state\<lparr>token := (if token s = JUndefined then JNull else jsonify (token s))\<rparr>"
  by (simp add: rehydrate_def persisted_eq lookup_def merge_persisted_def stored_prop_def
      initial_state_def)

lemma rehydrate_nothing: "storage ''auth-storage'' = None \<Longrightarrow> rehydrate storage = initial_state"
  by (simp add: rehydrate_def)

lemma rehydrate_merges:
  "storage ''auth-storage'' = Some (Json (JObj [(''state'', JObj props), (''version'', JNum 0)])) \<Longrightarrow>
   rehydrate storage = merge_persisted (JObj props) initial_state"
  by (simp add: rehydrate_def lookup_def)

text \<open>
  Claim C7, as amended. Whatever the state of the session, the entry written to storage
  holds the \<open>token\<close> field and no other: \<open>partialize\<close> keeps that one property, so the
  entry does not change with \<open>user\<close>, \<open>isAuthenticated\<close>, \<open>isLoading\<close> or \<open>error\<close>,
  and every \<open>set\<close> writes exactly this entry. A store created from an entry this store
  wrote starts with that token, \<open>user = null\<close> and \<open>isAuthenticated = false\<close>;
  \<open>initializeAuth\<close>, run on a stored token that the profile endpoint accepts, then takes
  \<open>user\<close> from the reply and sets \<open>isAuthenticated\<close> itself. Rehydration itself does
  not restrict what it reads: an entry that carries \<open>user\<close> or \<open>isAuthenticated\<close> has them
  copied into the store as they are.
\<close>

theorem persist_token_only:
  "own_props (partialize s) = [(''token'', token s)]
   \<and> persisted (s\<lparr>user := u, isAuthenticated := a, isLoading := l, error := e\<rparr>) = persisted s
   \<and> localStorage (set_state partial w) ''auth-storage'' = Some (persisted (partial (store w)))
   \<and> persisted s = Json (JObj [(''state'', JObj (if token s = JUndefined then []
                                       else [(''token'', jsonify (token s))])),
                                (''version'', JNum 0)])
   \<and> (truthy (token (store w))
        \<and> fst (api_get srv ''/users/profile''
             (w\<lparr>default_authorization := Some (bearer (token (store w)))\<rparr>)) = Inr resp
       \<longrightarrow> store (snd (initializeAuth srv w)) = (store w)\<lparr>user := data resp, isAuthenticated := True\<rparr>)
   \<and> (storage ''auth-storage'' = Some (persisted s) \<longrightarrow>
        rehydrate storage
          = \<lparr>user = JNull, token = (if token s = JUndefined then JNull else jsonify (token s)),
             isAuthenticated = False, isLoading = False, error = JNull\<rparr>)
   \<and> (storage ''auth-storage''
          = Some (Json (JObj [(''state'', JObj props), (''version'', JNum 0)])) \<longrightarrow>
        user (rehydrate storage)
          = (case map_of (rev props) ''user'' of None \<Rightarrow> JNull | Some v \<Rightarrow> v)
        \<and> isAuthenticated (rehydrate storage)
          = (case map_of (rev props) ''isAuthenticated'' of None \<Rightarrow> False | Some v \<Rightarrow> truthy v))"
proof (intro conjI impI)
  assume a: "truthy (token (store w))
        \<and> fst (api_get srv ''/users/profile''
             (w\<lparr>default_authorization := Some (bearer (token (store w)))\<rparr>)) = Inr resp"
  let ?w1 = "w\<lparr>default_authorization := Some (bearer (token (store w)))\<rparr>"
  obtain w2 where w2: "api_get srv ''/users/profile'' ?w1 = (Inr resp, w2)"
    using a by (cases "api_get srv ''/users/profile'' ?w1") simp
  have "store w2 = store w"
    using api_get_frame(1) [of srv "''/users/profile''" ?w1] by (simp add: w2)
  then show "store (snd (initializeAuth srv w)) = (store w)\<lparr>user := data resp, isAuthenticated := True\<rparr>"
    using a by (simp add: initializeAuth_def Let_def w2 set_state_frame)
next
  assume "storage ''auth-storage'' = Some (persisted s)"
  then show "rehydrate storage
          = \<lparr>user = JNull, token = (if token s = JUndefined then JNull else jsonify (token s)),
             isAuthenticated = False, isLoading = False, error = JNull\<rparr>"
    by (simp add: rehydrate_persisted initial_state_def)
next
  assume f: "storage ''auth-storage''
          = Some (Json (JObj [(''state'', JObj props), (''version'', JNum 0)]))"
  show "user (rehydrate storage)
          = (case map_of (rev props) ''user'' of None \<Rightarrow> JNull | Some v \<Rightarrow> v)"
    and "isAuthenticated (rehydrate storage)
          = (case map_of (rev props) ''isAuthenticated'' of None \<Rightarrow> False | Some v \<Rightarrow> truthy v)"
    using f
    by (simp_all add: rehydrate_merges [of storage props] merge_persisted_def stored_prop_def
        initial_state_def split: option.split)
qed (simp_all add: persisted_def partialize_def set_state_def)

theorem persist_token_only_witness:
  "truthy (token (store rehydrated_world))
   \<and> fst (api_get profile_server ''/users/profile''
         (rehydrated_world\<lparr>default_authorization := Some (bearer (token (store rehydrated_world)))\<rparr>))
       = Inr \<lparr>status = 200, data = alice\<rparr>
   \<and> store (snd (initializeAuth profile_server rehydrated_world))
       = \<lparr>user = alice, token = JStr ''t1'', isAuthenticated = True, isLoading = False, error = JNull\<rparr>
   \<and> persisted alice_session
       = Json (JObj [(''state'', JObj [(''token'', JStr ''t1'')]), (''version'', JNum 0)])
   \<and> localStorage alice_world ''auth-storage'' = Some (persisted alice_session)
   \<and> rehydrate (localStorage alice_world)
       = \<lparr>user = JNull, token = JStr ''t1'', isAuthenticated = False, isLoading = False, error = JNull\<rparr>
   \<and> store rehydrated_world = rehydrate (localStorage rehydrated_world)
   \<and> user (rehydrate forged_storage) = JObj [(''username'', JStr ''mallory'')]"
proof -
  let ?forged = "[(''token'', JStr ''t1''), (''user'', JObj [(''username'', JStr ''mallory'')]),
                  (''isAuthenticated'', JBool True)]"
  have h1: "truthy (token (store rehydrated_world))"
    by (simp add: rehydrated_world_def initial_state_def)
  have h2: "fst (api_get profile_server ''/users/profile''
         (rehydrated_world\<lparr>default_authorization := Some (bearer (token (store rehydrated_world)))\<rparr>))
       = Inr \<lparr>status = 200, data = alice\<rparr>"
    by (simp add: api_get_def api_request_cases profile_server_def validateStatus_def)
  have h3: "localStorage alice_world ''auth-storage'' = Some (persisted alice_session)"
    by (simp add: alice_world_def)
  have h4: "forged_storage ''auth-storage''
            = Some (Json (JObj [(''state'', JObj ?forged), (''version'', JNum 0)]))"
    by (simp add: forged_storage_def)
  have s: "(store rehydrated_world)\<lparr>user := alice, isAuthenticated := True\<rparr>
        = \<lparr>user = alice, token = JStr ''t1'', isAuthenticated = True, isLoading = False, error = JNull\<rparr>"
    by (simp add: rehydrated_world_def initial_state_def)
  have t: "token alice_session \<noteq> JUndefined \<and> jsonify (token alice_session) = JStr ''t1''"
    by (simp add: alice_session_def)
  have c1: "store (snd (initializeAuth profile_server rehydrated_world))
            = (store rehydrated_world)\<lparr>user := alice, isAuthenticated := True\<rparr>"
    and c2: "persisted alice_session
            = Json (JObj [(''state'', JObj (if token alice_session = JUndefined then []
                                       else [(''token'', jsonify (token alice_session))])),
                                (''version'', JNum 0)])"
    and c3: "rehydrate (localStorage alice_world)
          = \<lparr>user = JNull, token = (if token alice_session = JUndefined then JNull
                                      else jsonify (token alice_session)),
             isAuthenticated = False, isLoading = False, error = JNull\<rparr>"
    using persist_token_only [where s = alice_session and w = rehydrated_world
            and srv = profile_server and resp = "\<lparr>status = 200, data = alice\<rparr>"
            and storage = "localStorage alice_world"] h1 h2 h3
    by simp_all
  have c4: "user (rehydrate forged_storage)
            = (case map_of (rev ?forged) ''user'' of None \<Rightarrow> JNull | Some v \<Rightarrow> v)"
    using persist_token_only [where storage = forged_storage and props = ?forged] h4
    by blast
  have r: "store rehydrated_world = rehydrate (localStorage rehydrated_world)"
    by (simp add: rehydrated_world_def rehydrate_persisted initial_state_def)
  have g1: "store (snd (initializeAuth profile_server rehydrated_world))
       = \<lparr>user = alice, token = JStr ''t1'', isAuthenticated = True, isLoading = False, error = JNull\<rparr>"
    using c1 by (simp only: s)
  have g2: "persisted alice_session
       = Json (JObj [(''state'', JObj [(''token'', JStr ''t1'')]), (''version'', JNum 0)])"
    using c2 by (simp add: t)
  have g3: "rehydrate (localStorage alice_world)
       = \<lparr>user = JNull, token = JStr ''t1'', isAuthenticated = False, isLoading = False, error = JNull\<rparr>"
    using c3 by (simp add: t)
  have g4: "user (rehydrate forged_storage) = JObj [(''username'', JStr ''mallory'')]"
    using c4 by simp
  from h1 h2 g1 g2 h3 g3 r g4 show ?thesis by blast
qed

text \<open>
  The claim as it stands, which has \<open>user\<close> and \<open>isAuthenticated\<close> never read back from
  storage, fails for an entry that holds them: the store created from it is authenticated,
  with the stored user, before any \<open>initializeAuth\<close>.
\<close>

theorem rehydrate_reads_back:
  "isAuthenticated (rehydrate forged_storage) = True
   \<and> user (rehydrate forged_storage) = JObj [(''username'', JStr ''mallory'')]"
  by (simp add: rehydrate_def forged_storage_def lookup_def merge_persisted_def stored_prop_def)

section \<open>The Authorization header\<close>

lemma request_interceptor_token:
  "storage ''auth-storage'' = Some (persisted s) \<Longrightarrow> token s = JStr t \<Longrightarrow> t \<noteq> [] \<Longrightarrow>
   request_interceptor storage cfg
     = cfg\<lparr>headers := (headers cfg)(''Authorization'' \<mapsto> ''Bearer '' @ t)\<rparr>"
  by (simp add: request_interceptor_def persisted_eq get_prop_def lookup_def bearer_def)

lemma request_interceptor_no_token:
  "storage ''auth-storage'' = Some (persisted s) \<Longrightarrow> \<not> truthy (token s) \<Longrightarrow>
   request_interceptor storage cfg = cfg"
  using falsy_jsonify [of "token s"]
  by (simp add: request_interceptor_def persisted_eq get_prop_def lookup_def)

lemma request_interceptor_nothing:
  "storage ''auth-storage'' = None \<Longrightarrow> request_interceptor storage cfg = cfg"
  by (simp add: request_interceptor_def)

lemma request_interceptor_unparsed:
  "storage ''auth-storage'' = Some (NotJson text) \<Longrightarrow> request_interceptor storage cfg = cfg"
  by (simp add: request_interceptor_def)

lemma request_interceptor_reads:
  "storage ''auth-storage'' = Some (Json parsed) \<Longrightarrow>
   request_interceptor storage cfg
     = (if truthy (opt_prop (opt_prop parsed ''state'') ''token'') then
          cfg\<lparr>headers := (headers cfg)(''Authorization'' \<mapsto>
                 bearer (opt_prop (opt_prop parsed ''state'') ''token''))\<rparr>
        else cfg)"
  by (cases parsed) (simp_all add: request_interceptor_def get_prop_def)

text \<open>
  Claim C5, as amended. For every request that leaves the wrapper: if the store has
  persisted a token (a non-empty string \<open>t\<close>), the request carries
  \<open>Authorization: Bearer t\<close>, and so it does for any entry whose \<open>state.token\<close> is
  truthy; if there is no entry, or the entry does not parse, or its \<open>state.token\<close> is
  missing, \<open>null\<close> or otherwise falsy, the interceptor adds nothing to the instance's and
  the call's own headers. The request then carries the \<open>Authorization\<close> header of the
  call if it sets one, else the request default
  (\<open>api.defaults.headers.common['Authorization']\<close>) if one is installed, and none
  otherwise: the header is absent, not empty, only when no default is installed either.
\<close>

theorem authorization_header:
  "(localStorage w ''auth-storage'' = Some (persisted s) \<and> token s = JStr t \<and> t \<noteq> []
      \<longrightarrow> headers (outgoing w cfg) ''Authorization'' = Some (''Bearer '' @ t))
   \<and> ((localStorage w ''auth-storage'' = None
        \<or> localStorage w ''auth-storage'' = Some (persisted s) \<and> \<not> truthy (token s))
      \<longrightarrow> outgoing w cfg = cfg\<lparr>headers := default_headers w ++ headers cfg\<rparr>
          \<and> (default_authorization w = None \<and> headers cfg ''Authorization'' = None
               \<longrightarrow> headers (outgoing w cfg) ''Authorization'' = None))
   \<and> (localStorage w ''auth-storage'' = Some (NotJson raw)
      \<longrightarrow> outgoing w cfg = cfg\<lparr>headers := default_headers w ++ headers cfg\<rparr>)
   \<and> (localStorage w ''auth-storage'' = Some (Json parsed)
        \<and> \<not> truthy (opt_prop (opt_prop parsed ''state'') ''token'')
      \<longrightarrow> outgoing w cfg = cfg\<lparr>headers := default_headers w ++ headers cfg\<rparr>)
   \<and> (localStorage w ''auth-storage'' = Some (Json parsed)
        \<and> truthy (opt_prop (opt_prop parsed ''state'') ''token'')
      \<longrightarrow> headers (outgoing w cfg) ''Authorization''
            = Some (bearer (opt_prop (opt_prop parsed ''state'') ''token'')))
   \<and> (outgoing w cfg = cfg\<lparr>headers := default_headers w ++ headers cfg\<rparr>
      \<longrightarrow> headers (outgoing w cfg) ''Authorization''
            = (case headers cfg ''Authorization'' of
                 None \<Rightarrow> default_authorization w
               | Some h \<Rightarrow> Some h))"
proof (intro conjI impI)
  assume "localStorage w ''auth-storage'' = Some (persisted s) \<and> token s = JStr t \<and> t \<noteq> []"
  then show "headers (outgoing w cfg) ''Authorization'' = Some (''Bearer '' @ t)"
    by (simp add: outgoing_def request_interceptor_token)
next
  assume a: "localStorage w ''auth-storage'' = None
        \<or> localStorage w ''auth-storage'' = Some (persisted s) \<and> \<not> truthy (token s)"
  then show eq: "outgoing w cfg = cfg\<lparr>headers := default_headers w ++ headers cfg\<rparr>"
    by (auto simp add: outgoing_def request_interceptor_nothing request_interceptor_no_token)
  assume "default_authorization w = None \<and> headers cfg ''Authorization'' = None"
  then show "headers (outgoing w cfg) ''Authorization'' = None"
    by (simp add: eq default_headers_def map_add_def)
next
  assume "localStorage w ''auth-storage'' = Some (NotJson raw)"
  then show "outgoing w cfg = cfg\<lparr>headers := default_headers w ++ headers cfg\<rparr>"
    by (simp add: outgoing_def request_interceptor_unparsed)
next
  assume "localStorage w ''auth-storage'' = Some (Json parsed)
        \<and> \<not> truthy (opt_prop (opt_prop parsed ''state'') ''token'')"
  then show "outgoing w cfg = cfg\<lparr>headers := default_headers w ++ headers cfg\<rparr>"
    by (simp add: outgoing_def request_interceptor_reads)
next
  assume "localStorage w ''auth-storage'' = Some (Json parsed)
        \<and> truthy (opt_prop (opt_prop parsed ''state'') ''token'')"
  then show "headers (outgoing w cfg) ''Authorization''
            = Some (bearer (opt_prop (opt_prop parsed ''state'') ''token''))"
    by (simp add: outgoing_def request_interceptor_reads)
next
  assume "outgoing w cfg = cfg\<lparr>headers := default_headers w ++ headers cfg\<rparr>"
  then show "headers (outgoing w cfg) ''Authorization''
            = (case headers cfg ''Authorization'' of
                 None \<Rightarrow> default_authorization w
               | Some h \<Rightarrow> Some h)"
    by (simp add: default_headers_def map_add_def split: option.split)
qed

theorem authorization_header_witness:
  "(localStorage alice_world ''auth-storage'' = Some (persisted alice_session)
    \<and> token alice_session = JStr ''t1'' \<and> ''t1'' \<noteq> []
    \<and> headers (outgoing alice_world
          \<lparr>url = ''/plugins'', http_method = ''get'', headers = Map.empty, req_data = NoData\<rparr>)
          ''Authorization'' = Some ''Bearer t1'')
   \<and> (localStorage fresh_world ''auth-storage'' = None
    \<and> default_authorization fresh_world = None
    \<and> headers (outgoing fresh_world
          \<lparr>url = ''/health'', http_method = ''get'', headers = Map.empty, req_data = NoData\<rparr>)
          ''Authorization'' = None)
   \<and> (localStorage after_expiry ''auth-storage'' = None
    \<and> default_authorization after_expiry = Some ''Bearer t1''
    \<and> headers (outgoing after_expiry health_check) ''Authorization'' = Some ''Bearer t1'')
   \<and> headers (outgoing (fresh_world\<lparr>localStorage := forged_storage\<rparr>) health_check) ''Authorization''
       = Some ''Bearer t1''
   \<and> headers (outgoing (fresh_world\<lparr>localStorage := [''auth-storage'' \<mapsto> Json JNull]\<rparr>) health_check)
         ''Authorization'' = None
   \<and> headers (outgoing (fresh_world\<lparr>localStorage := [''auth-storage'' \<mapsto> NotJson ''{'']\<rparr>) health_check)
         ''Authorization'' = None"
proof -
  let ?plugins = "\<lparr>url = ''/plugins'', http_method = ''get'', headers = Map.empty, req_data = NoData\<rparr>"
  let ?health = "\<lparr>url = ''/health'', http_method = ''get'', headers = Map.empty, req_data = NoData\<rparr>"
  let ?forged = "fresh_world\<lparr>localStorage := forged_storage\<rparr>"
  let ?entry = "JObj [(''state'', JObj [(''token'', JStr ''t1''),
                                      (''user'', JObj [(''username'', JStr ''mallory'')]),
                                      (''isAuthenticated'', JBool True)]),
                    (''version'', JNum 0)]"
  let ?nulled = "fresh_world\<lparr>localStorage := [''auth-storage'' \<mapsto> Json JNull]\<rparr>"
  let ?broken = "fresh_world\<lparr>localStorage := [''auth-storage'' \<mapsto> NotJson ''{'']\<rparr>"
  have h1: "localStorage alice_world ''auth-storage'' = Some (persisted alice_session)
            \<and> token alice_session = JStr ''t1'' \<and> ''t1'' \<noteq> []"
    by (simp add: alice_world_def alice_session_def)
  have h2: "localStorage fresh_world ''auth-storage'' = None"
    and h3: "default_authorization fresh_world = None \<and> headers ?health ''Authorization'' = None"
    by (simp_all add: fresh_world_def)
  have h4: "localStorage after_expiry ''auth-storage'' = None"
    and h5: "default_authorization after_expiry = Some ''Bearer t1''"
    and h6: "headers health_check ''Authorization'' = None"
    by code_simp+
  have h7: "localStorage ?forged ''auth-storage'' = Some (Json ?entry)
            \<and> truthy (opt_prop (opt_prop ?entry ''state'') ''token'')"
    and t7: "bearer (opt_prop (opt_prop ?entry ''state'') ''token'') = ''Bearer t1''"
    by (simp_all add: forged_storage_def lookup_def bearer_def)
  have h8: "localStorage ?nulled ''auth-storage'' = Some (Json JNull)
            \<and> \<not> truthy (opt_prop (opt_prop JNull ''state'') ''token'')"
    and h9: "localStorage ?broken ''auth-storage'' = Some (NotJson ''{'')"
    and d: "default_authorization ?nulled = None" "default_authorization ?broken = None"
    by (simp_all add: fresh_world_def)
  have c1: "headers (outgoing alice_world ?plugins) ''Authorization'' = Some (''Bearer '' @ ''t1'')"
    using authorization_header [of alice_world alice_session "''t1''" ?plugins] h1 by blast
  have c2: "headers (outgoing fresh_world ?health) ''Authorization'' = None"
    using authorization_header [of fresh_world alice_session "''t1''" ?health] h2 h3 by blast
  have c3: "headers (outgoing after_expiry health_check) ''Authorization''
            = (case headers health_check ''Authorization'' of
                 None \<Rightarrow> default_authorization after_expiry
               | Some h \<Rightarrow> Some h)"
    using authorization_header [of after_expiry alice_session "''t1''" health_check] h4 by blast
  have c4: "headers (outgoing ?forged health_check) ''Authorization''
            = Some (bearer (opt_prop (opt_prop ?entry ''state'') ''token''))"
    using authorization_header [where w = ?forged and parsed = ?entry and cfg = health_check] h7
    by blast
  have c5: "headers (outgoing ?nulled health_check) ''Authorization''
            = (case headers health_check ''Authorization'' of
                 None \<Rightarrow> default_authorization ?nulled
               | Some h \<Rightarrow> Some h)"
    using authorization_header [where w = ?nulled and parsed = JNull and cfg = health_check] h8
    by blast
  have c6: "headers (outgoing ?broken health_check) ''Authorization''
            = (case headers health_check ''Authorization'' of
                 None \<Rightarrow> default_authorization ?broken
               | Some h \<Rightarrow> Some h)"
    using authorization_header [where w = ?broken and raw = "''{''" and cfg = health_check] h9
    by blast
  have g3: "headers (outgoing after_expiry health_check) ''Authorization'' = Some ''Bearer t1''"
    using c3 by (simp add: h5 h6)
  have g4: "headers (outgoing ?forged health_check) ''Authorization'' = Some ''Bearer t1''"
    using c4 by (simp only: t7)
  have g5: "headers (outgoing ?nulled health_check) ''Authorization'' = None"
    using c5 by (simp add: h6 d)
  have g6: "headers (outgoing ?broken health_check) ''Authorization'' = None"
    using c6 by (simp add: h6 d)
  have f1: "localStorage alice_world ''auth-storage'' = Some (persisted alice_session)
    \<and> token alice_session = JStr ''t1'' \<and> ''t1'' \<noteq> []
    \<and> headers (outgoing alice_world ?plugins) ''Authorization'' = Some ''Bearer t1''"
    using h1 c1 by simp
  from f1 h2 h3 c2 h4 h5 g3 g4 g5 g6 show ?thesis by blast
qed

text \<open>
  The claim as it stands, which has the header left out whenever no token is present,
  fails in two worlds the actions reach. After a login and a 401 to a later request
  nothing is persisted, yet the next request carries \<open>Bearer t1\<close>, the default the login
  installed. After a login answered 2xx without a token, the store has no token and the
  persisted state none, yet the next request carries \<open>Bearer undefined\<close>.
\<close>

theorem authorization_header_stale:
  "localStorage after_expiry ''auth-storage'' = None
   \<and> headers (outgoing after_expiry health_check) ''Authorization'' = Some ''Bearer t1''
   \<and> token (store after_token_less_login) = JUndefined
   \<and> localStorage after_token_less_login ''auth-storage''
       = Some (Json (JObj [(''state'', JObj []), (''version'', JNum 0)]))
   \<and> headers (outgoing after_token_less_login health_check) ''Authorization''
       = Some ''Bearer undefined''"
  by code_simp

section \<open>A 401 response\<close>

text \<open>
  Claim C4, as amended. Whatever request the wrapper sent, for whichever client, when the
  server answers it with status 401 the wrapper removes the persisted entry
  \<open>auth-storage\<close>, sets the location to \<open>/login\<close> and rejects with the error; it does
  each once, and sends no second request. The store in memory is left as it was: the
  session is unauthenticated only once the page that the navigation loads has built a new
  store.
\<close>

theorem unauthorized_response:
  assumes "srv (outgoing w cfg) = HttpReply r" and "status r = 401"
  shows "api_request srv cfg w
           = (Inl (AxiosError ''Request failed with status code 401'' (Some r)),
              w\<lparr>localStorage := (localStorage w)(''auth-storage'' := None),
                href := ''/login'',
                log := log w @ [Dispatched (http_method cfg) (url cfg),
                                ItemRemoved ''auth-storage'', Navigated ''/login'']\<rparr>)
         \<and> store (snd (api_request srv cfg w)) = store w"
  using assms
  by (simp add: api_request_def Let_def response_rejected_def validateStatus_def digits_401
      outgoing_frame)

theorem unauthorized_response_witness:
  "unauthorized (outgoing alice_world
       \<lparr>url = ''/plugins'', http_method = ''get'', headers = Map.empty, req_data = NoData\<rparr>)
     = HttpReply \<lparr>status = 401, data = JObj [(''detail'', JStr ''Could not validate credentials'')]\<rparr>
   \<and> localStorage (snd (api_get unauthorized ''/plugins'' alice_world)) ''auth-storage'' = None
   \<and> href (snd (api_get unauthorized ''/plugins'' alice_world)) = ''/login''
   \<and> log (snd (api_get unauthorized ''/plugins'' alice_world))
        = [Dispatched ''get'' ''/plugins'', ItemRemoved ''auth-storage'', Navigated ''/login'']"
  using unauthorized_response [of unauthorized alice_world
          "\<lparr>url = ''/plugins'', http_method = ''get'', headers = Map.empty, req_data = NoData\<rparr>"
          "\<lparr>status = 401, data = JObj [(''detail'', JStr ''Could not validate credentials'')]\<rparr>"]
  by (simp add: unauthorized_def api_get_def alice_world_def)

text \<open>
  The claim as it stands fails: after a 401 to \<open>pluginAPI.getPlugins()\<close> in the world a
  login has left, the store still says \<open>isAuthenticated = true\<close> and still holds the
  token.
\<close>

theorem unauthorized_keeps_session:
  "isAuthenticated (store (snd (api_get unauthorized ''/plugins'' alice_world))) = True
   \<and> token (store (snd (api_get unauthorized ''/plugins'' alice_world))) = JStr ''t1''"
  by (simp add: api_get_def api_request_frame alice_world_def alice_session_def)

text \<open>The store the next page builds from the emptied storage is the initial one.\<close>

lemma unauthorized_then_reload:
  assumes "srv (outgoing w cfg) = HttpReply r" and "status r = 401"
  shows "rehydrate (localStorage (snd (api_request srv cfg w))) = initial_state"
  using assms
  by (simp add: api_request_def Let_def response_rejected_def validateStatus_def rehydrate_nothing)

text \<open>
  A store action that catches the rejection goes on to call \<open>set\<close>, and \<open>set\<close> writes
  the entry again: after a 401 to \<open>updateProfile\<close> the token is back in storage.
\<close>

lemma updateProfile_unauthorized_repersists:
  "localStorage (snd (updateProfile unauthorized (JObj [(''email'', JStr ''new@x.com'')]) alice_world))
     ''auth-storage''
   = Some (Json (JObj [(''state'', JObj [(''token'', JStr ''t1'')]), (''version'', JNum 0)]))"
  by (simp add: updateProfile_def api_put_def api_request_def Let_def unauthorized_def
      validateStatus_def response_rejected_def set_state_def persisted_eq alice_world_def
      alice_session_def)

section \<open>Restoring the session\<close>

text \<open>
  Claim C3. When the store holds a token and the profile endpoint rejects the request
  \<open>initializeAuth\<close> sends with it, \<open>initializeAuth\<close> resolves and leaves the store, the
  persisted entry and the request default as an explicit \<open>logout()\<close> from the same world
  does: the initial empty session, and no token persisted.
\<close>

theorem initializeAuth_rejected:
  assumes "truthy (token (store w))"
    and "fst (api_get srv ''/users/profile''
           (w\<lparr>default_authorization := Some (bearer (token (store w)))\<rparr>)) = Inl err"
  shows "fst (initializeAuth srv w) = Inr JUndefined
         \<and> store (snd (initializeAuth srv w)) = store (logout w)
         \<and> store (snd (initializeAuth srv w)) = initial_state
         \<and> localStorage (snd (initializeAuth srv w)) = localStorage (logout w)
         \<and> default_authorization (snd (initializeAuth srv w)) = default_authorization (logout w)"
proof -
  let ?w1 = "w\<lparr>default_authorization := Some (bearer (token (store w)))\<rparr>"
  obtain w2 where w2: "api_get srv ''/users/profile'' ?w1 = (Inl err, w2)"
    using assms(2) by (cases "api_get srv ''/users/profile'' ?w1") simp
  have run: "initializeAuth srv w = (Inr JUndefined, logout w2)"
    using assms(1) by (simp add: initializeAuth_def Let_def w2)
  have "(localStorage (snd (api_get srv ''/users/profile'' ?w1)))
           (''auth-storage'' \<mapsto> persisted initial_state)
        = (localStorage ?w1)(''auth-storage'' \<mapsto> persisted initial_state)"
    by (simp add: api_get_def api_request_storage)
  then have "localStorage (logout w2) = localStorage (logout w)"
    by (simp add: logout_frame w2)
  then show ?thesis
    by (simp add: run logout_frame)
qed

theorem initializeAuth_rejected_witness:
  "truthy (token (store rehydrated_world))
   \<and> fst (api_get unauthorized ''/users/profile''
         (rehydrated_world\<lparr>default_authorization := Some (bearer (token (store rehydrated_world)))\<rparr>))
       = Inl (AxiosError ''Request failed with status code 401''
               (Some \<lparr>status = 401, data = JObj [(''detail'', JStr ''Could not validate credentials'')]\<rparr>))
   \<and> store (snd (initializeAuth unauthorized rehydrated_world)) = store (logout rehydrated_world)
   \<and> store (snd (initializeAuth unauthorized rehydrated_world)) = initial_state
   \<and> localStorage (snd (initializeAuth unauthorized rehydrated_world)) ''auth-storage''
       = Some (Json (JObj [(''state'', JObj [(''token'', JNull)]), (''version'', JNum 0)]))"
proof -
  have h1: "truthy (token (store rehydrated_world))"
    by (simp add: rehydrated_world_def initial_state_def)
  have h2: "fst (api_get unauthorized ''/users/profile''
         (rehydrated_world\<lparr>default_authorization := Some (bearer (token (store rehydrated_world)))\<rparr>))
       = Inl (AxiosError ''Request failed with status code 401''
               (Some \<lparr>status = 401, data = JObj [(''detail'', JStr ''Could not validate credentials'')]\<rparr>))"
    by (simp add: api_get_def api_request_cases unauthorized_def validateStatus_def digits_401)
  have p: "localStorage (logout rehydrated_world) ''auth-storage''
       = Some (Json (JObj [(''state'', JObj [(''token'', JNull)]), (''version'', JNum 0)]))"
    by (simp add: logout_frame persisted_eq initial_state_def)
  show ?thesis
    using initializeAuth_rejected [OF h1 h2] h1 h2 p by (simp add: logout_frame)
qed

section \<open>Updating the profile\<close>

subsection \<open>The properties of a merged object\<close>

lemma map_of_rev_distinct: "distinct (map fst xs) \<Longrightarrow> map_of (rev xs) = map_of xs"
proof (induction xs)
  case Nil
  then show ?case by simp
next
  case (Cons x xs)
  obtain k v where x: "x = (k, v)" by (cases x)
  from Cons.prems have k: "map_of xs k = None" and d: "distinct (map fst xs)"
    by (auto simp add: x map_of_eq_None_iff)
  have "map_of (rev (x # xs)) = map_of [x] ++ map_of (rev xs)"
    by (simp add: map_of_append del: map_of.simps)
  also have "\<dots> = map_of [x] ++ map_of xs"
    by (simp add: Cons.IH d)
  also have "\<dots> = map_of (x # xs)"
    using k by (auto simp add: x map_add_def fun_eq_iff split: option.split)
  finally show ?case .
qed

lemma map_of_assign: "map_of (assign target props) = map_of target ++ map_of (rev props)"
proof (induction props arbitrary: target)
  case Nil
  then show ?case by (simp add: assign_def)
next
  case (Cons p props)
  obtain k v where p: "p = (k, v)" by (cases p)
  have "assign target (p # props) = assign (AList.update k v target) props"
    by (simp add: assign_def p)
  then have "map_of (assign target (p # props))
             = map_of (AList.update k v target) ++ map_of (rev props)"
    by (simp only: Cons.IH)
  also have "\<dots> = (map_of target)(k \<mapsto> v) ++ map_of (rev props)"
    by (simp only: AList.update_conv')
  also have "\<dots> = map_of target ++ map_of (rev (p # props))"
    by (simp add: p map_add_def fun_eq_iff split: option.split)
  finally show ?case .
qed

lemma distinct_assign: "distinct (map fst target) \<Longrightarrow> distinct (map fst (assign target props))"
proof (induction props arbitrary: target)
  case Nil
  then show ?case by (simp add: assign_def)
next
  case (Cons p props)
  obtain k v where p: "p = (k, v)" by (cases p)
  have "assign target (p # props) = assign (AList.update k v target) props"
    by (simp add: assign_def p)
  with Cons show ?case by (simp add: AList.distinct_update)
qed

lemma lookup_spread2:
  "lookup (own_props (spread2 a b)) k
   = (case map_of (rev (own_props b)) k of None \<Rightarrow> lookup (own_props a) k | Some v \<Rightarrow> v)"
proof -
  have d: "distinct (map fst (assign (assign [] (own_props a)) (own_props b)))"
    by (simp add: distinct_assign)
  have "map_of (rev (assign (assign [] (own_props a)) (own_props b)))
        = map_of (rev (own_props a)) ++ map_of (rev (own_props b))"
    by (simp add: map_of_rev_distinct [OF d] map_of_assign)
  then show ?thesis
    by (simp add: spread2_def lookup_def map_add_def split: option.split)
qed

lemma lookup_absent: "k \<notin> fst ` set kvs \<Longrightarrow> map_of (rev kvs) k = None"
  by (simp add: map_of_eq_None_iff)

lemma lookup_present:
  "distinct (map fst kvs) \<Longrightarrow> (k, v) \<in> set kvs \<Longrightarrow> map_of (rev kvs) k = Some v"
  by (simp add: map_of_rev_distinct)

text \<open>
  Claim C8. For every current user and every response to a successful \<open>updateProfile\<close>,
  the new user is the shallow merge \<open>{...user, ...response.data}\<close>: a field the response
  does not name keeps the value it had (with only \<open>email\<close> returned, \<open>username\<close> stays),
  a field it names takes the returned value, and nothing else in the store changes. When
  the request fails, \<open>updateProfile\<close> sets the \<open>error\<close> field alone, to the server's
  \<open>detail\<close> or else to the default message, and resolves (with
  \<open>{success: false, error}\<close>) instead of throwing.
\<close>

theorem updateProfile_merge:
  "(fst (api_put srv ''/users/profile'' (JsonData profileData) w) = Inr resp \<longrightarrow>
      fst (updateProfile srv profileData w) = Inr success
      \<and> store (snd (updateProfile srv profileData w))
          = (store w)\<lparr>user := spread2 (user (store w)) (data resp)\<rparr>
      \<and> (\<forall>k. k \<notin> fst ` set (own_props (data resp)) \<longrightarrow>
            lookup (own_props (user (store (snd (updateProfile srv profileData w))))) k
            = lookup (own_props (user (store w))) k)
      \<and> (\<forall>k v. distinct (map fst (own_props (data resp))) \<and> (k, v) \<in> set (own_props (data resp)) \<longrightarrow>
            lookup (own_props (user (store (snd (updateProfile srv profileData w))))) k = v))
   \<and> (fst (api_put srv ''/users/profile'' (JsonData profileData) w) = Inl err \<longrightarrow>
      fst (updateProfile srv profileData w)
        = Inr (failure (error_detail err ''Profile update failed''))
      \<and> store (snd (updateProfile srv profileData w))
          = (store w)\<lparr>error := error_detail err ''Profile update failed''\<rparr>)"
proof (intro conjI impI allI)
  assume ok: "fst (api_put srv ''/users/profile'' (JsonData profileData) w) = Inr resp"
  obtain w1 where w1: "api_put srv ''/users/profile'' (JsonData profileData) w = (Inr resp, w1)"
    using ok by (cases "api_put srv ''/users/profile'' (JsonData profileData) w") simp
  have s1: "store w1 = store w"
    using api_put_frame(1) [of srv "''/users/profile''" "JsonData profileData" w] by (simp add: w1)
  show "fst (updateProfile srv profileData w) = Inr success"
    by (simp add: updateProfile_def w1)
  show st: "store (snd (updateProfile srv profileData w))
          = (store w)\<lparr>user := spread2 (user (store w)) (data resp)\<rparr>"
    by (simp add: updateProfile_def w1 set_state_frame s1)
  show "lookup (own_props (user (store (snd (updateProfile srv profileData w))))) k
            = lookup (own_props (user (store w))) k"
    if "k \<notin> fst ` set (own_props (data resp))" for k
    using that by (simp add: st lookup_spread2 lookup_absent)
  show "lookup (own_props (user (store (snd (updateProfile srv profileData w))))) k = v"
    if "distinct (map fst (own_props (data resp))) \<and> (k, v) \<in> set (own_props (data resp))" for k v
    using that lookup_present [of "own_props (data resp)" k v] by (simp add: st lookup_spread2)
next
  assume bad: "fst (api_put srv ''/users/profile'' (JsonData profileData) w) = Inl err"
  obtain w1 where w1: "api_put srv ''/users/profile'' (JsonData profileData) w = (Inl err, w1)"
    using bad by (cases "api_put srv ''/users/profile'' (JsonData profileData) w") simp
  have s1: "store w1 = store w"
    using api_put_frame(1) [of srv "''/users/profile''" "JsonData profileData" w] by (simp add: w1)
  show "fst (updateProfile srv profileData w)
        = Inr (failure (error_detail err ''Profile update failed''))"
    by (simp add: updateProfile_def w1 Let_def)
  show "store (snd (updateProfile srv profileData w))
          = (store w)\<lparr>error := error_detail err ''Profile update failed''\<rparr>"
    by (simp add: updateProfile_def w1 Let_def set_state_frame s1)
qed

theorem updateProfile_merge_witness:
  "fst (api_put email_updated ''/users/profile'' (JsonData (JObj [(''email'', JStr ''new@x.com'')])) alice_world)
     = Inr \<lparr>status = 200, data = JObj [(''email'', JStr ''new@x.com'')]\<rparr>
   \<and> ''username'' \<notin> fst ` set (own_props (JObj [(''email'', JStr ''new@x.com'')]))
   \<and> lookup (own_props (user (store (snd (updateProfile email_updated
         (JObj [(''email'', JStr ''new@x.com'')]) alice_world))))) ''username'' = JStr ''alice''
   \<and> lookup (own_props (user (store (snd (updateProfile email_updated
         (JObj [(''email'', JStr ''new@x.com'')]) alice_world))))) ''email'' = JStr ''new@x.com''
   \<and> fst (api_put unauthorized ''/users/profile'' (JsonData (JObj [(''email'', JStr ''new@x.com'')])) alice_world)
     = Inl (AxiosError ''Request failed with status code 401''
             (Some \<lparr>status = 401, data = JObj [(''detail'', JStr ''Could not validate credentials'')]\<rparr>))
   \<and> fst (updateProfile unauthorized (JObj [(''email'', JStr ''new@x.com'')]) alice_world)
     = Inr (JObj [(''success'', JBool False), (''error'', JStr ''Could not validate credentials'')])
   \<and> store (snd (updateProfile unauthorized (JObj [(''email'', JStr ''new@x.com'')]) alice_world))
     = alice_session\<lparr>error := JStr ''Could not validate credentials''\<rparr>"
proof -
  let ?d = "JObj [(''email'', JStr ''new@x.com'')]"
  let ?r = "\<lparr>status = 200, data = ?d\<rparr>"
  let ?e = "AxiosError ''Request failed with status code 401''
             (Some \<lparr>status = 401, data = JObj [(''detail'', JStr ''Could not validate credentials'')]\<rparr>)"
  have h1: "fst (api_put email_updated ''/users/profile'' (JsonData ?d) alice_world) = Inr ?r"
    by (simp add: api_put_def api_request_cases email_updated_def validateStatus_def)
  have h2: "''username'' \<notin> fst ` set (own_props (data ?r))"
    and h3: "distinct (map fst (own_props (data ?r))) \<and> (''email'', JStr ''new@x.com'') \<in> set (own_props (data ?r))"
    by simp_all
  have h4: "fst (api_put unauthorized ''/users/profile'' (JsonData ?d) alice_world) = Inl ?e"
    by (simp add: api_put_def api_request_cases unauthorized_def validateStatus_def digits_401)
  have u: "lookup (own_props (user (store alice_world))) ''username'' = JStr ''alice''"
    by (simp add: alice_world_def alice_session_def alice_def lookup_def)
  have m: "error_detail ?e ''Profile update failed'' = JStr ''Could not validate credentials''"
    by (simp add: error_detail_def js_or_def lookup_def)
  have s: "store alice_world = alice_session"
    by (simp add: alice_world_def)
  let ?w = "snd (updateProfile email_updated ?d alice_world)"
  have c1: "lookup (own_props (user (store ?w))) ''username''
            = lookup (own_props (user (store alice_world))) ''username''"
    and c2: "lookup (own_props (user (store ?w))) ''email'' = JStr ''new@x.com''"
    using updateProfile_merge [of email_updated ?d alice_world ?r ?e] h1 h2 h3 by blast+
  have c3: "fst (updateProfile unauthorized ?d alice_world)
            = Inr (failure (error_detail ?e ''Profile update failed''))"
    and c4: "store (snd (updateProfile unauthorized ?d alice_world))
            = (store alice_world)\<lparr>error := error_detail ?e ''Profile update failed''\<rparr>"
    using updateProfile_merge [of unauthorized ?d alice_world ?r ?e] h4 by blast+
  have g2: "''username'' \<notin> fst ` set (own_props ?d)"
    by simp
  have g3: "lookup (own_props (user (store ?w))) ''username'' = JStr ''alice''"
    using c1 by (simp only: u)
  have g6: "fst (updateProfile unauthorized ?d alice_world)
     = Inr (JObj [(''success'', JBool False), (''error'', JStr ''Could not validate credentials'')])"
    using c3 by (simp only: m failure_def)
  have g7: "store (snd (updateProfile unauthorized ?d alice_world))
     = alice_session\<lparr>error := JStr ''Could not validate credentials''\<rparr>"
    using c4 by (simp only: m s)
  from h1 g2 g3 c2 h4 g6 g7 show ?thesis by blast
qed

section \<open>Changing the password\<close>

text \<open>
  Claim C9, as amended. A successful \<open>changePassword\<close> resolves and leaves the store
  exactly as it was: the \<open>error\<close> field too, which it does not clear. A failed one
  resolves as well (with \<open>{success: false, error}\<close>), having set \<open>error\<close>, and no
  other field, to the server's \<open>detail\<close> when the response has a truthy one and to
  \<open>Password change failed\<close> otherwise.
\<close>

theorem changePassword_result:
  "(fst (api_put srv ''/users/password'' (JsonData passwordData) w) = Inr resp \<longrightarrow>
      fst (changePassword srv passwordData w) = Inr success
      \<and> store (snd (changePassword srv passwordData w)) = store w)
   \<and> (fst (api_put srv ''/users/password'' (JsonData passwordData) w) = Inl err \<longrightarrow>
      fst (changePassword srv passwordData w)
        = Inr (failure (error_detail err ''Password change failed''))
      \<and> store (snd (changePassword srv passwordData w))
          = (store w)\<lparr>error := error_detail err ''Password change failed''\<rparr>
      \<and> error_detail err ''Password change failed''
          = (case error_response err of
               None \<Rightarrow> JStr ''Password change failed''
             | Some r \<Rightarrow> if truthy (opt_prop (data r) ''detail'') then opt_prop (data r) ''detail''
                         else JStr ''Password change failed''))"
proof (intro conjI impI)
  assume ok: "fst (api_put srv ''/users/password'' (JsonData passwordData) w) = Inr resp"
  obtain w1 where w1: "api_put srv ''/users/password'' (JsonData passwordData) w = (Inr resp, w1)"
    using ok by (cases "api_put srv ''/users/password'' (JsonData passwordData) w") simp
  have s1: "store w1 = store w"
    using api_put_frame(1) [of srv "''/users/password''" "JsonData passwordData" w] by (simp add: w1)
  show "fst (changePassword srv passwordData w) = Inr success"
    by (simp add: changePassword_def w1)
  show "store (snd (changePassword srv passwordData w)) = store w"
    by (simp add: changePassword_def w1 s1)
next
  assume bad: "fst (api_put srv ''/users/password'' (JsonData passwordData) w) = Inl err"
  obtain w1 where w1: "api_put srv ''/users/password'' (JsonData passwordData) w = (Inl err, w1)"
    using bad by (cases "api_put srv ''/users/password'' (JsonData passwordData) w") simp
  have s1: "store w1 = store w"
    using api_put_frame(1) [of srv "''/users/password''" "JsonData passwordData" w] by (simp add: w1)
  show "fst (changePassword srv passwordData w)
        = Inr (failure (error_detail err ''Password change failed''))"
    by (simp add: changePassword_def w1 Let_def)
  show "store (snd (changePassword srv passwordData w))
          = (store w)\<lparr>error := error_detail err ''Password change failed''\<rparr>"
    by (simp add: changePassword_def w1 Let_def set_state_frame s1)
  show "error_detail err ''Password change failed''
          = (case error_response err of
               None \<Rightarrow> JStr ''Password change failed''
             | Some r \<Rightarrow> if truthy (opt_prop (data r) ''detail'') then opt_prop (data r) ''detail''
                         else JStr ''Password change failed'')"
    by (simp add: error_detail_def js_or_def split: option.split)
qed

theorem changePassword_result_witness:
  "fst (api_put wrong_password ''/users/password'' (JsonData passwords) alice_world)
     = Inl (AxiosError ''Request failed with status code 400''
             (Some \<lparr>status = 400, data = JObj [(''detail'', JStr ''wrong current password'')]\<rparr>))
   \<and> fst (changePassword wrong_password passwords alice_world)
     = Inr (JObj [(''success'', JBool False), (''error'', JStr ''wrong current password'')])
   \<and> error (store (snd (changePassword wrong_password passwords alice_world)))
     = JStr ''wrong current password''
   \<and> fst (api_put email_updated ''/users/password'' (JsonData passwords) alice_world)
     = Inr \<lparr>status = 200, data = JObj [(''email'', JStr ''new@x.com'')]\<rparr>
   \<and> store (snd (changePassword email_updated passwords alice_world)) = alice_session"
proof -
  let ?r = "\<lparr>status = 200, data = JObj [(''email'', JStr ''new@x.com'')]\<rparr>"
  let ?e = "AxiosError ''Request failed with status code 400''
             (Some \<lparr>status = 400, data = JObj [(''detail'', JStr ''wrong current password'')]\<rparr>)"
  have h1: "fst (api_put wrong_password ''/users/password'' (JsonData passwords) alice_world) = Inl ?e"
    by (simp add: api_put_def api_request_cases wrong_password_def validateStatus_def digits_400)
  have h2: "fst (api_put email_updated ''/users/password'' (JsonData passwords) alice_world) = Inr ?r"
    by (simp add: api_put_def api_request_cases email_updated_def validateStatus_def)
  have m: "error_detail ?e ''Password change failed'' = JStr ''wrong current password''"
    by (simp add: error_detail_def js_or_def lookup_def)
  have s: "store alice_world = alice_session"
    by (simp add: alice_world_def)
  show ?thesis
    using changePassword_result [of wrong_password passwords alice_world ?r ?e]
          changePassword_result [of email_updated passwords alice_world ?r ?e] h1 h2
    by (simp add: m s failure_def)
qed

text \<open>
  The claim as it stands, which has the success clear \<open>error\<close>, fails: an error left by
  an earlier failure is still there after a password change that succeeded.
\<close>

theorem changePassword_keeps_error:
  "fst (changePassword email_updated passwords stale_error_world) = Inr success
   \<and> error (store (snd (changePassword email_updated passwords stale_error_world)))
       = JStr ''wrong current password''
   \<and> error (store (snd (changePassword email_updated passwords stale_error_world))) \<noteq> JNull"
  by (simp add: changePassword_def api_put_def api_request_def Let_def email_updated_def
      validateStatus_def stale_error_world_def)

section \<open>Logging in\<close>

text \<open>
  The repository holds two revisions of \<open>login\<close>: \<open>login(credentials)\<close> of
  stores/authStore.js, which goes through the axios wrapper, and \<open>login(username,
  password)\<close> of unnamed/part_000, which calls \<open>fetch\<close>.
\<close>

subsection \<open>\<open>login(credentials)\<close> of stores/authStore.js\<close>

lemma loading_frame:
  "store (loading w) = (store w)\<lparr>isLoading := True, error := JNull\<rparr>"
  "default_authorization (loading w) = default_authorization w"
  by (simp_all add: loading_def set_state_frame)

lemma truthy_prop_destructure:
  "truthy (opt_prop d p) \<Longrightarrow> destructure e d p = Inr (opt_prop d p)"
  by (cases d) (simp_all add: destructure_def)

lemma error_detail_cases:
  "error_detail err dflt
   = (case error_response err of
        None \<Rightarrow> JStr dflt
      | Some r \<Rightarrow> if truthy (opt_prop (data r) ''detail'') then opt_prop (data r) ''detail''
                  else JStr dflt)"
  by (simp add: error_detail_def js_or_def split: option.split)

lemma api_post_frame:
  "store (snd (api_post srv path d w)) = store w"
  "default_authorization (snd (api_post srv path d w)) = default_authorization w"
  by (simp_all add: api_post_def api_request_frame)

lemma login_resolved:
  assumes "fst (api_post srv ''/auth/login'' (JsonData credentials) (loading w)) = Inr r"
    and "truthy (opt_prop (data r) ''access_token'')"
  shows "fst (login srv credentials w) = Inr success
         \<and> store (snd (login srv credentials w))
             = \<lparr>user = opt_prop (data r) ''user'', token = opt_prop (data r) ''access_token'',
                isAuthenticated = True, isLoading = False, error = JNull\<rparr>
         \<and> default_authorization (snd (login srv credentials w))
             = Some (bearer (opt_prop (data r) ''access_token''))"
proof -
  obtain w2 where w2: "api_post srv ''/auth/login'' (JsonData credentials) (loading w) = (Inr r, w2)"
    using assms(1) by (cases "api_post srv ''/auth/login'' (JsonData credentials) (loading w)") simp
  show ?thesis
    using assms(2)
    by (simp add: login_def Let_def w2 truthy_prop_destructure set_state_frame session_all_updates)
qed

lemma login_failed:
  assumes "fst (api_post srv ''/auth/login'' (JsonData credentials) (loading w)) = Inl err"
  shows "fst (login srv credentials w) = Inr (failure (error_detail err ''Login failed''))
         \<and> store (snd (login srv credentials w))
             = (store w)\<lparr>isLoading := False, error := error_detail err ''Login failed''\<rparr>"
proof -
  obtain w2 where w2: "api_post srv ''/auth/login'' (JsonData credentials) (loading w) = (Inl err, w2)"
    using assms by (cases "api_post srv ''/auth/login'' (JsonData credentials) (loading w)") simp
  have "store w2 = store (loading w)"
    using api_post_frame(1) [of srv "''/auth/login''" "JsonData credentials" "loading w"]
    by (simp add: w2)
  then show ?thesis
    by (simp add: login_def login_catch_def Let_def w2 set_state_frame loading_frame)
qed

lemma login_catch_resolves:
  "fst (login_catch err w) = Inr (failure (error_detail err ''Login failed''))"
  by (simp add: login_catch_def Let_def)

lemma login_resolves: "\<exists>v. fst (login srv credentials w) = Inr v"
  by (auto simp add: login_def Let_def login_catch_resolves split: prod.split sum.split)

subsection \<open>\<open>login(username, password)\<close> of unnamed/part_000\<close>

lemma login_fetch_resolved:
  "login_fetch_try net username password = Inr (usr, access_token) \<Longrightarrow>
   fst (login_fetch net username password w) = Inr JUndefined
   \<and> store (snd (login_fetch net username password w))
       = \<lparr>user = usr, token = access_token, isAuthenticated = True, isLoading = False, error = JNull\<rparr>"
  by (simp add: login_fetch_def Let_def set_state_frame session_all_updates)

lemma login_fetch_rejected:
  "login_fetch_try net username password = Inl err \<Longrightarrow>
   fst (login_fetch net username password w) = Inl (Error (message_or err ''Login failed''))
   \<and> store (snd (login_fetch net username password w))
       = (store w)\<lparr>isLoading := False, error := JStr (message_or err ''Login failed'')\<rparr>
   \<and> localStorage (snd (login_fetch net username password w)) ''auth-storage''
       = Some (persisted (store w))"
  by (simp add: login_fetch_def login_fetch_catch_def Let_def set_state_frame loading_frame
      persisted_def partialize_def)

lemma login_fetch_profile:
  assumes "net (login_request username password) = Inr resp" and "ok resp"
    and "f_json resp = Inr d" and "truthy (opt_prop d ''access_token'')"
  shows "login_fetch_try net username password
         = and_then (net (profile_request (opt_prop d ''access_token''))) (\<lambda>profileResponse.
           and_then (if ok profileResponse then f_json profileResponse
                     else Inr (JObj [(''username'', username)]))
             (\<lambda>usr. Inr (usr, opt_prop d ''access_token'')))"
  using assms by (simp add: login_fetch_try_def and_then_def truthy_prop_destructure)

text \<open>
  Claim C1, as amended. In the revision of unnamed/part_000: when the authentication
  endpoint answers \<open>login(username, password)\<close> with a 2xx response whose body carries a
  token, then: if the profile endpoint answers the request made with that token with a 2xx
  response and a JSON body, \<open>login\<close> resolves and the store ends with that body as
  \<open>user\<close>, the token as \<open>token\<close>, \<open>isAuthenticated = true\<close>, \<open>isLoading = false\<close> and
  \<open>error = null\<close>; if the profile endpoint answers with any other status, the same holds
  with \<open>user\<close> the record \<open>{username}\<close> of the submitted username alone; if the profile
  request gets no answer at all (the transport fails), or its 2xx body is not JSON, the
  login fails as any other: \<open>login\<close> rejects, \<open>error\<close> holds the failure's message, and
  \<open>token\<close>, \<open>user\<close> and \<open>isAuthenticated\<close> are as they were.
  In the revision of stores/authStore.js: when the request to the authentication endpoint
  resolves with a body that carries a token, \<open>login(credentials)\<close> resolves with
  \<open>{success: true}\<close> and the store ends with that token, \<open>isAuthenticated = true\<close>,
  \<open>isLoading = false\<close>, \<open>error = null\<close>, and as \<open>user\<close> the \<open>user\<close> field of the same
  body (\<open>undefined\<close> when it has none); the token is installed as the request default,
  and no profile is fetched.
\<close>

theorem login_authenticates:
  "(net (login_request username password) = Inr resp \<and> ok resp \<and> f_json resp = Inr d
      \<and> truthy (opt_prop d ''access_token'') \<longrightarrow>
      (net (profile_request (opt_prop d ''access_token'')) = Inr p \<and> ok p \<and> f_json p = Inr profile \<longrightarrow>
         fst (login_fetch net username password w) = Inr JUndefined
         \<and> store (snd (login_fetch net username password w))
             = \<lparr>user = profile, token = opt_prop d ''access_token'', isAuthenticated = True,
                isLoading = False, error = JNull\<rparr>)
      \<and> (net (profile_request (opt_prop d ''access_token'')) = Inr p \<and> \<not> ok p \<longrightarrow>
         fst (login_fetch net username password w) = Inr JUndefined
         \<and> store (snd (login_fetch net username password w))
             = \<lparr>user = JObj [(''username'', username)], token = opt_prop d ''access_token'',
                isAuthenticated = True, isLoading = False, error = JNull\<rparr>)
      \<and> (net (profile_request (opt_prop d ''access_token'')) = Inl e
          \<or> net (profile_request (opt_prop d ''access_token'')) = Inr p \<and> ok p \<and> f_json p = Inl e \<longrightarrow>
         fst (login_fetch net username password w) = Inl (Error (message_or e ''Login failed''))
         \<and> store (snd (login_fetch net username password w))
             = (store w)\<lparr>isLoading := False, error := JStr (message_or e ''Login failed'')\<rparr>))
   \<and> (fst (api_post srv ''/auth/login'' (JsonData credentials) (loading w)) = Inr r
      \<and> truthy (opt_prop (data r) ''access_token'') \<longrightarrow>
      fst (login srv credentials w) = Inr success
      \<and> store (snd (login srv credentials w))
          = \<lparr>user = opt_prop (data r) ''user'', token = opt_prop (data r) ''access_token'',
             isAuthenticated = True, isLoading = False, error = JNull\<rparr>
      \<and> default_authorization (snd (login srv credentials w))
          = Some (bearer (opt_prop (data r) ''access_token'')))"
proof (intro conjI impI)
  let ?t = "opt_prop d ''access_token''"
  assume auth: "net (login_request username password) = Inr resp \<and> ok resp \<and> f_json resp = Inr d
      \<and> truthy ?t"
  then have body: "login_fetch_try net username password
         = and_then (net (profile_request ?t)) (\<lambda>profileResponse.
           and_then (if ok profileResponse then f_json profileResponse
                     else Inr (JObj [(''username'', username)])) (\<lambda>usr. Inr (usr, ?t)))"
    by (simp add: login_fetch_profile)
  {
    assume "net (profile_request ?t) = Inr p \<and> ok p \<and> f_json p = Inr profile"
    then have "login_fetch_try net username password = Inr (profile, ?t)"
      by (simp add: body and_then_def)
    from login_fetch_resolved [OF this]
    show "fst (login_fetch net username password w) = Inr JUndefined"
      and "store (snd (login_fetch net username password w))
             = \<lparr>user = profile, token = ?t, isAuthenticated = True, isLoading = False, error = JNull\<rparr>"
      by simp_all
  }
  {
    assume "net (profile_request ?t) = Inr p \<and> \<not> ok p"
    then have "login_fetch_try net username password = Inr (JObj [(''username'', username)], ?t)"
      by (simp add: body and_then_def)
    from login_fetch_resolved [OF this]
    show "fst (login_fetch net username password w) = Inr JUndefined"
      and "store (snd (login_fetch net username password w))
             = \<lparr>user = JObj [(''username'', username)], token = ?t, isAuthenticated = True,
                isLoading = False, error = JNull\<rparr>"
      by simp_all
  }
  {
    assume "net (profile_request ?t) = Inl e
          \<or> net (profile_request ?t) = Inr p \<and> ok p \<and> f_json p = Inl e"
    then have "login_fetch_try net username password = Inl e"
      by (auto simp add: body and_then_def)
    from login_fetch_rejected [OF this]
    show "fst (login_fetch net username password w) = Inl (Error (message_or e ''Login failed''))"
      and "store (snd (login_fetch net username password w))
             = (store w)\<lparr>isLoading := False, error := JStr (message_or e ''Login failed'')\<rparr>"
      by simp_all
  }
next
  assume "fst (api_post srv ''/auth/login'' (JsonData credentials) (loading w)) = Inr r
      \<and> truthy (opt_prop (data r) ''access_token'')"
  then have a: "fst (api_post srv ''/auth/login'' (JsonData credentials) (loading w)) = Inr r"
    and b: "truthy (opt_prop (data r) ''access_token'')"
    by simp_all
  from login_resolved [OF a b]
  show "fst (login srv credentials w) = Inr success"
    and "store (snd (login srv credentials w))
          = \<lparr>user = opt_prop (data r) ''user'', token = opt_prop (data r) ''access_token'',
             isAuthenticated = True, isLoading = False, error = JNull\<rparr>"
    and "default_authorization (snd (login srv credentials w))
          = Some (bearer (opt_prop (data r) ''access_token''))"
    by simp_all
qed

theorem login_authenticates_witness:
  "profile_unavailable (login_request (JStr ''alice'') (JStr ''pw'')) = Inr token_reply
   \<and> ok token_reply
   \<and> truthy (opt_prop (JObj [(''access_token'', JStr ''t1''), (''token_type'', JStr ''bearer'')]) ''access_token'')
   \<and> store (snd (login_fetch backend (JStr ''alice'') (JStr ''pw'') fresh_world))
       = \<lparr>user = alice, token = JStr ''t1'', isAuthenticated = True, isLoading = False, error = JNull\<rparr>
   \<and> store (snd (login_fetch profile_unavailable (JStr ''alice'') (JStr ''pw'') fresh_world))
       = \<lparr>user = JObj [(''username'', JStr ''alice'')], token = JStr ''t1'', isAuthenticated = True,
          isLoading = False, error = JNull\<rparr>
   \<and> fst (login_fetch profile_unreachable (JStr ''alice'') (JStr ''pw'') fresh_world)
       = Inl (Error ''Failed to fetch'')
   \<and> fst (api_post token_server ''/auth/login'' (JsonData alice_credentials) (loading fresh_world))
       = Inr \<lparr>status = 200,
              data = JObj [(''access_token'', JStr ''t1''), (''token_type'', JStr ''bearer'')]\<rparr>
   \<and> store (snd (login token_server alice_credentials fresh_world))
       = \<lparr>user = JUndefined, token = JStr ''t1'', isAuthenticated = True, isLoading = False,
          error = JNull\<rparr>"
proof -
  let ?d = "JObj [(''access_token'', JStr ''t1''), (''token_type'', JStr ''bearer'')]"
  let ?down = "\<lparr>f_status = 503, f_json = Inl (SyntaxError ''Unexpected token < in JSON at position 0'')\<rparr>"
  let ?up = "\<lparr>f_status = 200, f_json = Inr alice\<rparr>"
  let ?r = "\<lparr>status = 200, data = ?d\<rparr>"
  have t: "opt_prop ?d ''access_token'' = JStr ''t1''" and u: "opt_prop ?d ''user'' = JUndefined"
    by (simp_all add: lookup_def)
  have h: "ok token_reply \<and> f_json token_reply = Inr ?d \<and> truthy (opt_prop ?d ''access_token'')"
    by (simp add: ok_def lookup_def token_reply_def)
  have a1: "backend (login_request (JStr ''alice'') (JStr ''pw'')) = Inr token_reply"
    and a2: "profile_unavailable (login_request (JStr ''alice'') (JStr ''pw'')) = Inr token_reply"
    and a3: "profile_unreachable (login_request (JStr ''alice'') (JStr ''pw'')) = Inr token_reply"
    by (simp_all add: backend_def profile_unavailable_def profile_unreachable_def login_request_def)
  have p1: "backend (profile_request (opt_prop ?d ''access_token'')) = Inr ?up \<and> ok ?up \<and> f_json ?up = Inr alice"
    and p2: "profile_unavailable (profile_request (opt_prop ?d ''access_token'')) = Inr ?down \<and> \<not> ok ?down"
    and p3: "profile_unreachable (profile_request (opt_prop ?d ''access_token'')) = Inl (TypeError ''Failed to fetch'')"
    by (simp_all add: backend_def profile_unavailable_def profile_unreachable_def profile_request_def ok_def)
  have q: "fst (api_post token_server ''/auth/login'' (JsonData alice_credentials) (loading fresh_world)) = Inr ?r"
    by (simp add: api_post_def api_request_cases token_server_def validateStatus_def)
  have q2: "truthy (opt_prop (data ?r) ''access_token'')"
    by (simp add: lookup_def)
  have m: "message_or (TypeError ''Failed to fetch'') ''Login failed'' = ''Failed to fetch''"
    by (simp add: message_or_def)
  have c1: "store (snd (login_fetch backend (JStr ''alice'') (JStr ''pw'') fresh_world))
       = \<lparr>user = alice, token = opt_prop ?d ''access_token'', isAuthenticated = True, isLoading = False, error = JNull\<rparr>"
    using login_authenticates [where net = backend and resp = token_reply and d = ?d and p = ?up
            and profile = alice and w = fresh_world and username = "JStr ''alice''"
            and password = "JStr ''pw''"] a1 h p1 by blast
  have c2: "store (snd (login_fetch profile_unavailable (JStr ''alice'') (JStr ''pw'') fresh_world))
       = \<lparr>user = JObj [(''username'', JStr ''alice'')], token = opt_prop ?d ''access_token'',
          isAuthenticated = True, isLoading = False, error = JNull\<rparr>"
    using login_authenticates [where net = profile_unavailable and resp = token_reply and d = ?d
            and p = ?down and w = fresh_world and username = "JStr ''alice''"
            and password = "JStr ''pw''"] a2 h p2 by blast
  have c3: "fst (login_fetch profile_unreachable (JStr ''alice'') (JStr ''pw'') fresh_world)
       = Inl (Error (message_or (TypeError ''Failed to fetch'') ''Login failed''))"
    using login_authenticates [where net = profile_unreachable and resp = token_reply and d = ?d
            and e = "TypeError ''Failed to fetch''" and w = fresh_world
            and username = "JStr ''alice''" and password = "JStr ''pw''"] a3 h p3 by blast
  have c4: "store (snd (login token_server alice_credentials fresh_world))
       = \<lparr>user = opt_prop (data ?r) ''user'', token = opt_prop (data ?r) ''access_token'',
          isAuthenticated = True, isLoading = False, error = JNull\<rparr>"
    using login_authenticates [where srv = token_server and credentials = alice_credentials
            and w = fresh_world and r = ?r] q q2 by blast
  have c4': "store (snd (login token_server alice_credentials fresh_world))
       = \<lparr>user = JUndefined, token = JStr ''t1'', isAuthenticated = True, isLoading = False,
          error = JNull\<rparr>"
    using c4 by (simp add: lookup_def)
  show ?thesis
    using a2 h c1 c2 c3 q c4' by (simp only: t m)
qed

text \<open>
  The claim as it stands fails in both revisions. In unnamed/part_000, where the profile
  request fails on the network, the authentication endpoint has returned the token \<open>t1\<close>,
  yet the session ends unauthenticated, with no token and no user, and \<open>login\<close> rejects.
  In stores/authStore.js, a reply that carries the token and no \<open>user\<close> leaves \<open>user\<close>
  undefined: the one request dispatched is the login itself.
\<close>

theorem login_profile_unreachable:
  "profile_unreachable (login_request (JStr ''alice'') (JStr ''pw'')) = Inr token_reply
   \<and> profile_unreachable (profile_request (JStr ''t1'')) = Inl (TypeError ''Failed to fetch'')
   \<and> fst (login_fetch profile_unreachable (JStr ''alice'') (JStr ''pw'') fresh_world)
       = Inl (Error ''Failed to fetch'')
   \<and> store (snd (login_fetch profile_unreachable (JStr ''alice'') (JStr ''pw'') fresh_world))
       = \<lparr>user = JNull, token = JNull, isAuthenticated = False, isLoading = False,
          error = JStr ''Failed to fetch''\<rparr>
   \<and> user (store (snd (login token_server alice_credentials fresh_world))) = JUndefined
   \<and> log (snd (login token_server alice_credentials fresh_world))
       = [ItemSet ''auth-storage'', Dispatched ''post'' ''/auth/login'', ItemSet ''auth-storage'']"
  by (simp add: login_fetch_def login_fetch_try_def login_fetch_catch_def and_then_def Let_def
      profile_unreachable_def token_reply_def login_request_def profile_request_def ok_def
      destructure_def lookup_def message_or_def set_state_def fresh_world_def initial_state_def
      bearer_def loading_def login_def api_post_def api_request_def token_server_def
      validateStatus_def outgoing_frame)

lemma login_fetch_try_fails:
  assumes "net (login_request username password) = Inl e
           \<or> net (login_request username password) = Inr resp \<and> \<not> ok resp"
  shows "\<exists>err. login_fetch_try net username password = Inl err"
proof -
  from assms consider
      (transport) "net (login_request username password) = Inl e"
    | (status) "net (login_request username password) = Inr resp" "\<not> ok resp"
    by blast
  then show ?thesis
  proof cases
    case transport
    then show ?thesis by (simp add: login_fetch_try_def and_then_def)
  next
    case status
    show ?thesis
    proof (cases "f_json resp")
      case (Inl a)
      with status show ?thesis by (simp add: login_fetch_try_def and_then_def)
    next
      case (Inr errorData)
      with status show ?thesis
        by (cases "get_prop errorData ''detail''") (simp_all add: login_fetch_try_def and_then_def)
    qed
  qed
qed

lemma thrown_message:
  "message_or (Error (to_string (js_or detail (JStr ''Login failed'')))) ''Login failed''
   = (if truthy detail \<and> to_string detail \<noteq> [] then to_string detail else ''Login failed'')"
  by (simp add: message_or_def js_or_def)

lemma login_null_reply:
  assumes "fst (api_post srv ''/auth/login'' (JsonData credentials) (loading w)) = Inr r"
    and "data r = JNull \<or> data r = JUndefined"
  shows "fst (login srv credentials w) = Inr (failure (JStr ''Login failed''))
         \<and> store (snd (login srv credentials w))
             = (store w)\<lparr>isLoading := False, error := JStr ''Login failed''\<rparr>"
proof -
  obtain w2 where w2: "api_post srv ''/auth/login'' (JsonData credentials) (loading w) = (Inr r, w2)"
    using assms(1) by (cases "api_post srv ''/auth/login'' (JsonData credentials) (loading w)") simp
  have s2: "store w2 = store (loading w)"
    using api_post_frame(1) [of srv "''/auth/login''" "JsonData credentials" "loading w"]
    by (simp add: w2)
  obtain m where d: "destructure ''response.data'' (data r) ''access_token'' = Inl (TypeError m)"
    using assms(2) by (auto simp add: destructure_def)
  have e: "error_detail (TypeError m) ''Login failed'' = JStr ''Login failed''"
    by (simp add: error_detail_def js_or_def)
  show ?thesis
    by (simp add: login_def login_catch_def Let_def w2 d e set_state_frame loading_frame s2)
qed

text \<open>
  Claim C2, as amended. In the revision of unnamed/part_000: whenever the \<open>try\<close> block
  of \<open>login\<close> fails, \<open>login\<close> rejects with an \<open>Error\<close> carrying a message, and the
  store ends with \<open>isLoading = false\<close>, \<open>error\<close> that message, and \<open>user\<close>, \<open>token\<close>
  and \<open>isAuthenticated\<close> as they were, the persisted token with them: a session that was
  unauthenticated stays so. The message is that of the failure, or \<open>Login failed\<close> when
  that is empty. For a request the transport fails, and for a non-2xx body that is not
  JSON, the failure is that error. For a non-2xx response whose JSON body is \<open>null\<close>, it
  is the TypeError of reading \<open>detail\<close> of \<open>null\<close>. For a non-2xx response with any
  other JSON body, it is an \<open>Error\<close> whose message is the body's \<open>detail\<close> converted to
  a string when the \<open>detail\<close> is truthy (a string \<open>detail\<close> is itself, an object gives
  \<open>[object Object]\<close>, an empty list the empty string) and \<open>Login failed\<close> when it is
  not.
  The \<open>try\<close> block fails on every transport failure and on every non-2xx response,
  whatever its body, so \<open>login\<close> then always rejects and always records a message.
  In the revision of stores/authStore.js: when the request to the authentication endpoint
  is rejected, \<open>login\<close> does not throw: it resolves with \<open>{success: false, error}\<close>,
  and the store ends with \<open>isLoading = false\<close> and that \<open>error\<close>, the rest as it was;
  \<open>error\<close> is the \<open>detail\<close> of the response body, as it is, when there is a response
  with a truthy one, and \<open>Login failed\<close> otherwise. The same happens, with
  \<open>Login failed\<close>, when the request resolves with the body \<open>null\<close>.
\<close>

theorem login_failure:
  "(login_fetch_try net username password = Inl err \<longrightarrow>
      fst (login_fetch net username password w) = Inl (Error (message_or err ''Login failed''))
      \<and> store (snd (login_fetch net username password w))
          = (store w)\<lparr>isLoading := False, error := JStr (message_or err ''Login failed'')\<rparr>
      \<and> localStorage (snd (login_fetch net username password w)) ''auth-storage''
          = Some (persisted (store w)))
   \<and> (net (login_request username password) = Inl e \<longrightarrow>
        login_fetch_try net username password = Inl e)
   \<and> (net (login_request username password) = Inr resp \<and> \<not> ok resp \<and> f_json resp = Inl e \<longrightarrow>
        login_fetch_try net username password = Inl e)
   \<and> (net (login_request username password) = Inr resp \<and> \<not> ok resp \<and> f_json resp = Inr errorData
        \<and> errorData \<noteq> JNull \<and> errorData \<noteq> JUndefined \<longrightarrow>
        login_fetch_try net username password
          = Inl (Error (to_string (js_or (opt_prop errorData ''detail'') (JStr ''Login failed'')))))
   \<and> (net (login_request username password) = Inr resp \<and> \<not> ok resp \<and> f_json resp = Inr JNull \<longrightarrow>
        login_fetch_try net username password
          = Inl (TypeError ''Cannot read properties of null (reading 'detail')''))
   \<and> (net (login_request username password) = Inr resp \<and> \<not> ok resp \<and> f_json resp = Inr JUndefined \<longrightarrow>
        login_fetch_try net username password
          = Inl (TypeError ''Cannot read properties of undefined (reading 'detail')''))
   \<and> message_or (Error (to_string (js_or detail (JStr ''Login failed'')))) ''Login failed''
       = (if truthy detail \<and> to_string detail \<noteq> [] then to_string detail else ''Login failed'')
   \<and> message_or (Error (to_string (js_or (JStr m) (JStr ''Login failed'')))) ''Login failed''
       = (if m = [] then ''Login failed'' else m)
   \<and> message_or (Error (to_string (js_or JUndefined (JStr ''Login failed'')))) ''Login failed''
       = ''Login failed''
   \<and> (fst (api_post srv ''/auth/login'' (JsonData credentials) (loading w)) = Inl aerr \<longrightarrow>
        fst (login srv credentials w) = Inr (failure (error_detail aerr ''Login failed''))
        \<and> store (snd (login srv credentials w))
            = (store w)\<lparr>isLoading := False, error := error_detail aerr ''Login failed''\<rparr>
        \<and> error_detail aerr ''Login failed''
            = (case error_response aerr of
                 None \<Rightarrow> JStr ''Login failed''
               | Some r \<Rightarrow> if truthy (opt_prop (data r) ''detail'') then opt_prop (data r) ''detail''
                           else JStr ''Login failed''))
   \<and> (fst (api_post srv ''/auth/login'' (JsonData credentials) (loading w)) = Inr reply
        \<and> (data reply = JNull \<or> data reply = JUndefined) \<longrightarrow>
        fst (login srv credentials w) = Inr (failure (JStr ''Login failed''))
        \<and> store (snd (login srv credentials w))
            = (store w)\<lparr>isLoading := False, error := JStr ''Login failed''\<rparr>)
   \<and> (net (login_request username password) = Inl e
        \<or> net (login_request username password) = Inr resp \<and> \<not> ok resp \<longrightarrow>
        (\<exists>msg. fst (login_fetch net username password w) = Inl (Error msg)
           \<and> store (snd (login_fetch net username password w))
               = (store w)\<lparr>isLoading := False, error := JStr msg\<rparr>))"
proof (intro conjI impI)
  assume "net (login_request username password) = Inl e
        \<or> net (login_request username password) = Inr resp \<and> \<not> ok resp"
  then obtain failed where failed: "login_fetch_try net username password = Inl failed"
    using login_fetch_try_fails [where net = net and username = username
        and password = password and e = e and resp = resp]
    by blast
  from login_fetch_rejected [where net = net and username = username
        and password = password and w = w, OF failed]
  show "\<exists>msg. fst (login_fetch net username password w) = Inl (Error msg)
           \<and> store (snd (login_fetch net username password w))
               = (store w)\<lparr>isLoading := False, error := JStr msg\<rparr>"
    by blast
next
  assume f: "login_fetch_try net username password = Inl err"
  from login_fetch_rejected [OF f]
  show "fst (login_fetch net username password w) = Inl (Error (message_or err ''Login failed''))"
    and "store (snd (login_fetch net username password w))
          = (store w)\<lparr>isLoading := False, error := JStr (message_or err ''Login failed'')\<rparr>"
    and "localStorage (snd (login_fetch net username password w)) ''auth-storage''
          = Some (persisted (store w))"
    by simp_all
next
  assume a: "fst (api_post srv ''/auth/login'' (JsonData credentials) (loading w)) = Inl aerr"
  from login_failed [OF a]
  show "fst (login srv credentials w) = Inr (failure (error_detail aerr ''Login failed''))"
    and "store (snd (login srv credentials w))
            = (store w)\<lparr>isLoading := False, error := error_detail aerr ''Login failed''\<rparr>"
    by simp_all
  show "error_detail aerr ''Login failed''
            = (case error_response aerr of
                 None \<Rightarrow> JStr ''Login failed''
               | Some r \<Rightarrow> if truthy (opt_prop (data r) ''detail'') then opt_prop (data r) ''detail''
                           else JStr ''Login failed'')"
    by (rule error_detail_cases)
next
  assume b: "fst (api_post srv ''/auth/login'' (JsonData credentials) (loading w)) = Inr reply
        \<and> (data reply = JNull \<or> data reply = JUndefined)"
  then have b1: "fst (api_post srv ''/auth/login'' (JsonData credentials) (loading w)) = Inr reply"
    and b2: "data reply = JNull \<or> data reply = JUndefined"
    by simp_all
  from login_null_reply [OF b1 b2]
  show "fst (login srv credentials w) = Inr (failure (JStr ''Login failed''))"
    and "store (snd (login srv credentials w))
            = (store w)\<lparr>isLoading := False, error := JStr ''Login failed''\<rparr>"
    by simp_all
next
  show "message_or (Error (to_string (js_or detail (JStr ''Login failed'')))) ''Login failed''
       = (if truthy detail \<and> to_string detail \<noteq> [] then to_string detail else ''Login failed'')"
    by (rule thrown_message)
qed (simp_all add: login_fetch_try_def and_then_def get_prop_def message_or_def js_or_def)

theorem login_failure_witness:
  "wrong_credentials (login_request (JStr ''alice'') (JStr ''pw''))
     = Inr \<lparr>f_status = 401, f_json = Inr (JObj [(''detail'', JStr ''Incorrect username or password'')])\<rparr>
   \<and> fst (login_fetch wrong_credentials (JStr ''alice'') (JStr ''pw'') fresh_world)
       = Inl (Error ''Incorrect username or password'')
   \<and> store (snd (login_fetch wrong_credentials (JStr ''alice'') (JStr ''pw'') fresh_world))
       = \<lparr>user = JNull, token = JNull, isAuthenticated = False, isLoading = False,
          error = JStr ''Incorrect username or password''\<rparr>
   \<and> localStorage (snd (login_fetch wrong_credentials (JStr ''alice'') (JStr ''pw'') fresh_world))
         ''auth-storage''
       = Some (Json (JObj [(''state'', JObj [(''token'', JNull)]), (''version'', JNum 0)]))
   \<and> offline (login_request (JStr ''alice'') (JStr ''pw'')) = Inl (TypeError ''Failed to fetch'')
   \<and> fst (login_fetch offline (JStr ''alice'') (JStr ''pw'') fresh_world)
       = Inl (Error ''Failed to fetch'')
   \<and> fst (login_fetch bad_gateway (JStr ''alice'') (JStr ''pw'') fresh_world)
       = Inl (Error ''Unexpected token < in JSON at position 0'')
   \<and> null_body (login_request (JStr ''alice'') (JStr ''pw''))
       = Inr \<lparr>f_status = 500, f_json = Inr JNull\<rparr>
   \<and> fst (login_fetch null_body (JStr ''alice'') (JStr ''pw'') fresh_world)
       = Inl (Error ''Cannot read properties of null (reading 'detail')'')
   \<and> fst (login_fetch validation_error (JStr ''alice'') (JStr ''pw'') fresh_world)
       = Inl (Error ''[object Object]'')
   \<and> fst (api_post unauthorized ''/auth/login'' (JsonData alice_credentials) (loading fresh_world))
       = Inl (AxiosError ''Request failed with status code 401''
               (Some \<lparr>status = 401, data = JObj [(''detail'', JStr ''Could not validate credentials'')]\<rparr>))
   \<and> fst (login unauthorized alice_credentials fresh_world)
       = Inr (JObj [(''success'', JBool False), (''error'', JStr ''Could not validate credentials'')])
   \<and> store (snd (login unauthorized alice_credentials fresh_world))
       = \<lparr>user = JNull, token = JNull, isAuthenticated = False, isLoading = False,
          error = JStr ''Could not validate credentials''\<rparr>"
proof -
  let ?alice = "JStr ''alice''" and ?pw = "JStr ''pw''"
  let ?body = "JObj [(''detail'', JStr ''Incorrect username or password'')]"
  let ?resp = "\<lparr>f_status = 401, f_json = Inr ?body\<rparr>"
  let ?thrown = "Error (to_string (js_or (opt_prop ?body ''detail'') (JStr ''Login failed'')))"
  let ?unparsed = "SyntaxError ''Unexpected token < in JSON at position 0''"
  let ?page = "\<lparr>f_status = 502, f_json = Inl ?unparsed\<rparr>"
  let ?aerr = "AxiosError ''Request failed with status code 401''
               (Some \<lparr>status = 401, data = JObj [(''detail'', JStr ''Could not validate credentials'')]\<rparr>)"
  have h1: "wrong_credentials (login_request ?alice ?pw) = Inr ?resp
            \<and> \<not> ok ?resp \<and> f_json ?resp = Inr ?body \<and> ?body \<noteq> JNull \<and> ?body \<noteq> JUndefined"
    by (simp add: wrong_credentials_def ok_def)
  have h2: "offline (login_request ?alice ?pw) = Inl (TypeError ''Failed to fetch'')"
    by (simp add: offline_def)
  have h3: "bad_gateway (login_request ?alice ?pw) = Inr ?page
            \<and> \<not> ok ?page \<and> f_json ?page = Inl ?unparsed"
    by (simp add: bad_gateway_def ok_def)
  have h4: "fst (api_post unauthorized ''/auth/login'' (JsonData alice_credentials) (loading fresh_world))
            = Inl ?aerr"
    by (simp add: api_post_def api_request_cases unauthorized_def validateStatus_def digits_401)
  have t1: "login_fetch_try wrong_credentials ?alice ?pw = Inl ?thrown"
    using login_failure [where net = wrong_credentials and resp = ?resp and errorData = ?body
            and username = ?alice and password = ?pw] h1
    by blast
  have t2: "login_fetch_try offline ?alice ?pw = Inl (TypeError ''Failed to fetch'')"
    using login_failure [where net = offline and e = "TypeError ''Failed to fetch''"
            and username = ?alice and password = ?pw] h2
    by blast
  have t3: "login_fetch_try bad_gateway ?alice ?pw = Inl ?unparsed"
    using login_failure [where net = bad_gateway and resp = ?page and e = ?unparsed
            and username = ?alice and password = ?pw] h3
    by blast
  have m1: "message_or ?thrown ''Login failed'' = ''Incorrect username or password''"
    by (simp add: message_or_def js_or_def lookup_def)
  have m2: "message_or (TypeError ''Failed to fetch'') ''Login failed'' = ''Failed to fetch''"
    and m3: "message_or ?unparsed ''Login failed'' = ''Unexpected token < in JSON at position 0''"
    by (simp_all add: message_or_def)
  have m4: "error_detail ?aerr ''Login failed'' = JStr ''Could not validate credentials''"
    by (simp add: error_detail_def js_or_def lookup_def)
  have c1: "fst (login_fetch wrong_credentials ?alice ?pw fresh_world)
              = Inl (Error (message_or ?thrown ''Login failed''))"
    and c2: "store (snd (login_fetch wrong_credentials ?alice ?pw fresh_world))
              = (store fresh_world)\<lparr>isLoading := False, error := JStr (message_or ?thrown ''Login failed'')\<rparr>"
    and c3: "localStorage (snd (login_fetch wrong_credentials ?alice ?pw fresh_world))
               ''auth-storage'' = Some (persisted (store fresh_world))"
    using login_failure [where net = wrong_credentials and err = ?thrown and w = fresh_world
            and username = ?alice and password = ?pw] t1
    by blast+
  have c4: "fst (login_fetch offline ?alice ?pw fresh_world)
              = Inl (Error (message_or (TypeError ''Failed to fetch'') ''Login failed''))"
    using login_failure [where net = offline and err = "TypeError ''Failed to fetch''"
            and w = fresh_world and username = ?alice and password = ?pw] t2
    by blast
  have c5: "fst (login_fetch bad_gateway ?alice ?pw fresh_world)
              = Inl (Error (message_or ?unparsed ''Login failed''))"
    using login_failure [where net = bad_gateway and err = ?unparsed
            and w = fresh_world and username = ?alice and password = ?pw] t3
    by blast
  have c6: "fst (login unauthorized alice_credentials fresh_world)
              = Inr (failure (error_detail ?aerr ''Login failed''))"
    and c7: "store (snd (login unauthorized alice_credentials fresh_world))
              = (store fresh_world)\<lparr>isLoading := False, error := error_detail ?aerr ''Login failed''\<rparr>"
    using login_failure [where srv = unauthorized and credentials = alice_credentials
            and w = fresh_world and aerr = ?aerr] h4
    by blast+
  let ?null = "\<lparr>f_status = 500, f_json = Inr JNull\<rparr>"
  let ?reading = "TypeError ''Cannot read properties of null (reading 'detail')''"
  let ?list = "JObj [(''detail'', JArr [JObj [(''msg'', JStr ''field required'')]])]"
  let ?invalid = "\<lparr>f_status = 422, f_json = Inr ?list\<rparr>"
  let ?listed = "Error (to_string (js_or (opt_prop ?list ''detail'') (JStr ''Login failed'')))"
  have h5: "null_body (login_request ?alice ?pw) = Inr ?null
            \<and> \<not> ok ?null \<and> f_json ?null = Inr JNull"
    by (simp add: null_body_def ok_def)
  have h6: "validation_error (login_request ?alice ?pw) = Inr ?invalid
            \<and> \<not> ok ?invalid \<and> f_json ?invalid = Inr ?list \<and> ?list \<noteq> JNull \<and> ?list \<noteq> JUndefined"
    by (simp add: validation_error_def ok_def)
  have t5: "login_fetch_try null_body ?alice ?pw = Inl ?reading"
    using login_failure [where net = null_body and resp = ?null
            and username = ?alice and password = ?pw] h5
    by blast
  have t6: "login_fetch_try validation_error ?alice ?pw = Inl ?listed"
    using login_failure [where net = validation_error and resp = ?invalid and errorData = ?list
            and username = ?alice and password = ?pw] h6
    by blast
  have m5: "message_or ?reading ''Login failed'' = ''Cannot read properties of null (reading 'detail')''"
    and m6: "message_or ?listed ''Login failed'' = ''[object Object]''"
    by (simp_all add: message_or_def js_or_def lookup_def)
  have c8: "fst (login_fetch null_body ?alice ?pw fresh_world)
              = Inl (Error (message_or ?reading ''Login failed''))"
    using login_failure [where net = null_body and err = ?reading
            and w = fresh_world and username = ?alice and password = ?pw] t5
    by blast
  have c9: "fst (login_fetch validation_error ?alice ?pw fresh_world)
              = Inl (Error (message_or ?listed ''Login failed''))"
    using login_failure [where net = validation_error and err = ?listed
            and w = fresh_world and username = ?alice and password = ?pw] t6
    by blast
  have s: "(store fresh_world)\<lparr>isLoading := False, error := JStr ''Incorrect username or password''\<rparr>
           = \<lparr>user = JNull, token = JNull, isAuthenticated = False, isLoading = False,
              error = JStr ''Incorrect username or password''\<rparr>"
    and s': "(store fresh_world)\<lparr>isLoading := False, error := JStr ''Could not validate credentials''\<rparr>
           = \<lparr>user = JNull, token = JNull, isAuthenticated = False, isLoading = False,
              error = JStr ''Could not validate credentials''\<rparr>"
    and p: "persisted (store fresh_world)
           = Json (JObj [(''state'', JObj [(''token'', JNull)]), (''version'', JNum 0)])"
    by (simp_all add: fresh_world_def initial_state_def persisted_eq)
  show ?thesis
    using h1 h2 h4 h5 c1 c2 c3 c4 c5 c6 c7 c8 c9 by (simp only: m1 m2 m3 m4 m5 m6 s s' p failure_def)
qed

text \<open>
  The claim as it stands fails in both revisions. In unnamed/part_000 a network error
  leaves the transport's message in \<open>error\<close>, not the default. In stores/authStore.js a
  refused login resolves with a value; nothing is thrown.
\<close>

theorem login_failure_not_as_claimed:
  "offline (login_request (JStr ''alice'') (JStr ''pw'')) = Inl (TypeError ''Failed to fetch'')
   \<and> error (store (snd (login_fetch offline (JStr ''alice'') (JStr ''pw'') fresh_world)))
       = JStr ''Failed to fetch''
   \<and> error (store (snd (login_fetch offline (JStr ''alice'') (JStr ''pw'') fresh_world)))
       \<noteq> JStr ''Login failed''
   \<and> fst (login unauthorized alice_credentials fresh_world)
       = Inr (JObj [(''success'', JBool False), (''error'', JStr ''Could not validate credentials'')])"
  by (simp add: login_fetch_def login_fetch_try_def login_fetch_catch_def and_then_def Let_def
      offline_def message_or_def set_state_def loading_def login_def login_catch_def
      api_post_def api_request_def unauthorized_def validateStatus_def response_rejected_def
      error_detail_def js_or_def lookup_def failure_def)

end
